theory Spec2Isabelle
  imports Complex_Main "HOL-Library.Word" "HOL-Library.Sublist"
begin

unbundle bit_operations_syntax

section \<open>MobBob control program: data model\<close>

text \<open>
  The sketch \<^verbatim>\<open>MobBob-Control-Bluetooth.ino\<close> keeps all of its state in global variables.
  They are modelled by two records: \<open>parser\<close> (the variables of the serial command parser) and
  \<open>machine\<close> (the variables of the animation system, the animation tables in memory, and the
  two output devices: the serial port and the four servos).

  Machine integers. A C \<^verbatim>\<open>int\<close> is a two's complement word whose width depends on the board
  (16 bits on the AVR boards the README names, 32 bits on ARM boards); it is modelled as
  \<open>'a word\<close> for an arbitrary width \<open>'a\<close>, so arithmetic wraps and comparisons are the signed
  ones (\<open><s\<close>, \<open>\<le>s\<close>). A \<^verbatim>\<open>long\<close> (the millisecond clock) is \<open>32 word\<close>. The two small
  counters \<^verbatim>\<open>currCmdIndex\<close> and \<^verbatim>\<open>currParamIndex\<close> are only ever reset to 0 and
  incremented behind a guard that bounds them by 2 and 6; they are modelled as \<open>nat\<close>.
\<close>

type_synonym long = "32 word"

subsection \<open>Servo calibration constants and joint helper functions\<close>

definition FRONT_JOINT_HIPS :: "'a::len word" where "FRONT_JOINT_HIPS = 1"

definition LEFT_HIP_CENTRE :: "'a::len word" where "LEFT_HIP_CENTRE = 1580"
definition LEFT_FOOT_CENTRE :: "'a::len word" where "LEFT_FOOT_CENTRE = 1410"
definition RIGHT_HIP_CENTRE :: "'a::len word" where "RIGHT_HIP_CENTRE = 1500"
definition RIGHT_FOOT_CENTRE :: "'a::len word" where "RIGHT_FOOT_CENTRE = 1465"

definition FOOT_DELTA :: "'a::len word" where "FOOT_DELTA = 150"
definition HIP_DELTA :: "'a::len word" where "HIP_DELTA = FRONT_JOINT_HIPS * 120"

definition LeftHipCentre :: "'a::len word" where "LeftHipCentre = LEFT_HIP_CENTRE"
definition LeftHipIn :: "'a::len word \<Rightarrow> 'a word" where
  "LeftHipIn millisecs = LEFT_HIP_CENTRE + (FRONT_JOINT_HIPS * millisecs)"
definition LeftHipOut :: "'a::len word \<Rightarrow> 'a word" where
  "LeftHipOut millisecs = LEFT_HIP_CENTRE - (FRONT_JOINT_HIPS * millisecs)"

definition RightHipCentre :: "'a::len word" where "RightHipCentre = RIGHT_HIP_CENTRE"
definition RightHipIn :: "'a::len word \<Rightarrow> 'a word" where
  "RightHipIn millisecs = RIGHT_HIP_CENTRE - (FRONT_JOINT_HIPS * millisecs)"
definition RightHipOut :: "'a::len word \<Rightarrow> 'a word" where
  "RightHipOut millisecs = RIGHT_HIP_CENTRE + (FRONT_JOINT_HIPS * millisecs)"

definition LeftFootFlat :: "'a::len word" where "LeftFootFlat = LEFT_FOOT_CENTRE"
definition LeftFootUp :: "'a::len word \<Rightarrow> 'a word" where
  "LeftFootUp millisecs = LEFT_FOOT_CENTRE - millisecs"
definition LeftFootDown :: "'a::len word \<Rightarrow> 'a word" where
  "LeftFootDown millisecs = LEFT_FOOT_CENTRE + millisecs"

definition RightFootFlat :: "'a::len word" where "RightFootFlat = RIGHT_FOOT_CENTRE"
definition RightFootUp :: "'a::len word \<Rightarrow> 'a word" where
  "RightFootUp millisecs = RIGHT_FOOT_CENTRE + millisecs"
definition RightFootDown :: "'a::len word \<Rightarrow> 'a word" where
  "RightFootDown millisecs = RIGHT_FOOT_CENTRE - millisecs"

subsection \<open>Keyframe animation tables\<close>

text \<open>
  An animation is an \<^verbatim>\<open>int [][5]\<close> array: row 0 is the header \<open>{numFrames, 0, 0, 0, 0}\<close>, rows
  \<open>1 .. numFrames\<close> are keyframes \<open>{tweenTime, leftHip, leftFoot, rightHip, rightFoot}\<close>.
  A table is a list of rows; the values below are the initial contents of the arrays.
\<close>

type_synonym 'a anim = "'a word list list"

definition TWEEN_TIME_VALUE :: nat where "TWEEN_TIME_VALUE = 0"
definition LEFT_HIP_VALUE :: nat where "LEFT_HIP_VALUE = 1"
definition LEFT_FOOT_VALUE :: nat where "LEFT_FOOT_VALUE = 2"
definition RIGHT_HIP_VALUE :: nat where "RIGHT_HIP_VALUE = 3"
definition RIGHT_FOOT_VALUE :: nat where "RIGHT_FOOT_VALUE = 4"

definition standStraightAnim :: "'a::len anim" where
  "standStraightAnim =
    [[1, 0, 0, 0, 0],
     [300, LeftHipCentre, LeftFootFlat, RightHipCentre, RightFootFlat]]"

definition walkForwardAnim :: "'a::len anim" where
  "walkForwardAnim =
    [[8, 0, 0, 0, 0],
     [300, LeftHipCentre, LeftFootUp FOOT_DELTA, RightHipCentre, RightFootDown FOOT_DELTA],
     [300, LeftHipIn HIP_DELTA, LeftFootUp FOOT_DELTA, RightHipOut HIP_DELTA, RightFootDown FOOT_DELTA],
     [300, LeftHipIn HIP_DELTA, LeftFootFlat, RightHipOut HIP_DELTA, RightFootFlat],
     [300, LeftHipIn HIP_DELTA, LeftFootDown FOOT_DELTA, RightHipOut HIP_DELTA, RightFootUp FOOT_DELTA],
     [300, LeftHipCentre, LeftFootDown FOOT_DELTA, RightHipCentre, RightFootUp FOOT_DELTA],
     [300, LeftHipOut HIP_DELTA, LeftFootDown FOOT_DELTA, RightHipIn HIP_DELTA, RightFootUp FOOT_DELTA],
     [300, LeftHipOut HIP_DELTA, LeftFootFlat, RightHipIn HIP_DELTA, RightFootFlat],
     [300, LeftHipOut HIP_DELTA, LeftFootUp FOOT_DELTA, RightHipIn HIP_DELTA, RightFootDown FOOT_DELTA]]"

definition walkBackwardAnim :: "'a::len anim" where
  "walkBackwardAnim =
    [[8, 0, 0, 0, 0],
     [300, LeftHipCentre, LeftFootUp FOOT_DELTA, RightHipCentre, RightFootDown FOOT_DELTA],
     [300, LeftHipOut HIP_DELTA, LeftFootUp FOOT_DELTA, RightHipIn HIP_DELTA, RightFootDown FOOT_DELTA],
     [300, LeftHipOut HIP_DELTA, LeftFootFlat, RightHipIn HIP_DELTA, RightFootFlat],
     [300, LeftHipOut HIP_DELTA, LeftFootDown FOOT_DELTA, RightHipIn HIP_DELTA, RightFootUp FOOT_DELTA],
     [300, LeftHipCentre, LeftFootDown FOOT_DELTA, RightHipCentre, RightFootUp FOOT_DELTA],
     [300, LeftHipIn HIP_DELTA, LeftFootDown FOOT_DELTA, RightHipOut HIP_DELTA, RightFootUp FOOT_DELTA],
     [300, LeftHipIn HIP_DELTA, LeftFootFlat, RightHipOut HIP_DELTA, RightFootFlat],
     [300, LeftHipIn HIP_DELTA, LeftFootUp FOOT_DELTA, RightHipOut HIP_DELTA, RightFootDown FOOT_DELTA]]"

definition walkEndAnim :: "'a::len anim" where
  "walkEndAnim =
    [[2, 0, 0, 0, 0],
     [300, LeftHipCentre, LeftFootUp FOOT_DELTA, RightHipCentre, RightFootDown FOOT_DELTA],
     [300, LeftHipCentre, LeftFootFlat, RightHipCentre, RightFootFlat]]"

definition turnLeftAnim :: "'a::len anim" where
  "turnLeftAnim =
    [[6, 0, 0, 0, 0],
     [300, LeftHipCentre, LeftFootUp FOOT_DELTA, RightHipCentre, RightFootDown FOOT_DELTA],
     [300, LeftHipIn HIP_DELTA, LeftFootUp FOOT_DELTA, RightHipIn HIP_DELTA, RightFootDown FOOT_DELTA],
     [300, LeftHipIn HIP_DELTA, LeftFootFlat, RightHipIn HIP_DELTA, RightFootFlat],
     [300, LeftHipIn HIP_DELTA, LeftFootDown FOOT_DELTA, RightHipIn HIP_DELTA, RightFootUp FOOT_DELTA],
     [300, LeftHipCentre, LeftFootDown FOOT_DELTA, RightHipCentre, RightFootUp FOOT_DELTA],
     [300, LeftHipCentre, LeftFootFlat, RightHipCentre, RightFootFlat]]"

definition turnRightAnim :: "'a::len anim" where
  "turnRightAnim =
    [[6, 0, 0, 0, 0],
     [300, LeftHipCentre, LeftFootDown FOOT_DELTA, RightHipCentre, RightFootUp FOOT_DELTA],
     [300, LeftHipIn HIP_DELTA, LeftFootDown FOOT_DELTA, RightHipIn HIP_DELTA, RightFootUp FOOT_DELTA],
     [300, LeftHipIn HIP_DELTA, LeftFootFlat, RightHipIn HIP_DELTA, RightFootFlat],
     [300, LeftHipIn HIP_DELTA, LeftFootUp FOOT_DELTA, RightHipIn HIP_DELTA, RightFootDown FOOT_DELTA],
     [300, LeftHipCentre, LeftFootUp FOOT_DELTA, RightHipCentre, RightFootDown FOOT_DELTA],
     [300, LeftHipCentre, LeftFootFlat, RightHipCentre, RightFootFlat]]"

definition shakeHeadAnim :: "'a::len anim" where
  "shakeHeadAnim =
    [[4, 0, 0, 0, 0],
     [150, LeftHipOut HIP_DELTA, LeftFootFlat, RightHipIn HIP_DELTA, RightFootFlat],
     [150, LeftHipCentre, LeftFootFlat, RightHipCentre, RightFootFlat],
     [150, LeftHipIn HIP_DELTA, LeftFootFlat, RightHipOut HIP_DELTA, RightFootFlat],
     [150, LeftHipCentre, LeftFootFlat, RightHipCentre, RightFootFlat]]"

definition wobbleAnim :: "'a::len anim" where
  "wobbleAnim =
    [[4, 0, 0, 0, 0],
     [300, LeftHipCentre, LeftFootUp FOOT_DELTA, RightHipCentre, RightFootDown FOOT_DELTA],
     [300, LeftHipCentre, LeftFootFlat, RightHipCentre, RightFootFlat],
     [300, LeftHipCentre, LeftFootDown FOOT_DELTA, RightHipCentre, RightFootUp FOOT_DELTA],
     [300, LeftHipCentre, LeftFootFlat, RightHipCentre, RightFootFlat]]"

definition wobbleLeftAnim :: "'a::len anim" where
  "wobbleLeftAnim =
    [[2, 0, 0, 0, 0],
     [300, LeftHipCentre, LeftFootUp FOOT_DELTA, RightHipCentre, RightFootDown FOOT_DELTA],
     [300, LeftHipCentre, LeftFootFlat, RightHipCentre, RightFootFlat]]"

definition wobbleRightAnim :: "'a::len anim" where
  "wobbleRightAnim =
    [[2, 0, 0, 0, 0],
     [300, LeftHipCentre, LeftFootDown FOOT_DELTA, RightHipCentre, RightFootUp FOOT_DELTA],
     [300, LeftHipCentre, LeftFootFlat, RightHipCentre, RightFootFlat]]"

definition tapFeetAnim :: "'a::len anim" where
  "tapFeetAnim =
    [[2, 0, 0, 0, 0],
     [500, LeftHipCentre, LeftFootUp FOOT_DELTA, RightHipCentre, RightFootUp FOOT_DELTA],
     [500, LeftHipCentre, LeftFootFlat, RightHipCentre, RightFootFlat]]"

definition tapLeftFootAnim :: "'a::len anim" where
  "tapLeftFootAnim =
    [[2, 0, 0, 0, 0],
     [500, LeftHipCentre, LeftFootUp FOOT_DELTA, RightHipCentre, RightFootFlat],
     [500, LeftHipCentre, LeftFootFlat, RightHipCentre, RightFootFlat]]"

definition tapRightFootAnim :: "'a::len anim" where
  "tapRightFootAnim =
    [[2, 0, 0, 0, 0],
     [500, LeftHipCentre, LeftFootFlat, RightHipCentre, RightFootUp FOOT_DELTA],
     [500, LeftHipCentre, LeftFootFlat, RightHipCentre, RightFootFlat]]"

definition bounceAnim :: "'a::len anim" where
  "bounceAnim =
    [[2, 0, 0, 0, 0],
     [500, LeftHipCentre, LeftFootDown 300, RightHipCentre, RightFootDown 300],
     [500, LeftHipCentre, LeftFootFlat, RightHipCentre, RightFootFlat]]"

definition shakeLegsAnim :: "'a::len anim" where
  "shakeLegsAnim =
    [[14, 0, 0, 0, 0],
     [300, LeftHipCentre, LeftFootUp FOOT_DELTA, RightHipCentre, RightFootDown FOOT_DELTA],
     [100, LeftHipCentre, LeftFootUp FOOT_DELTA, RightHipIn HIP_DELTA, RightFootDown FOOT_DELTA],
     [100, LeftHipCentre, LeftFootUp FOOT_DELTA, RightHipCentre, RightFootDown FOOT_DELTA],
     [100, LeftHipCentre, LeftFootUp FOOT_DELTA, RightHipOut HIP_DELTA, RightFootDown FOOT_DELTA],
     [100, LeftHipCentre, LeftFootUp FOOT_DELTA, RightHipCentre, RightFootDown FOOT_DELTA],
     [100, LeftHipCentre, LeftFootUp FOOT_DELTA, RightHipIn HIP_DELTA, RightFootDown FOOT_DELTA],
     [100, LeftHipCentre, LeftFootUp FOOT_DELTA, RightHipCentre, RightFootDown FOOT_DELTA],
     [300, LeftHipCentre, LeftFootFlat, RightHipCentre, RightFootFlat],
     [300, LeftHipCentre, LeftFootDown FOOT_DELTA, RightHipCentre, RightFootUp FOOT_DELTA],
     [100, LeftHipIn HIP_DELTA, LeftFootDown FOOT_DELTA, RightHipCentre, RightFootUp FOOT_DELTA],
     [100, LeftHipCentre, LeftFootDown FOOT_DELTA, RightHipCentre, RightFootUp FOOT_DELTA],
     [100, LeftHipOut HIP_DELTA, LeftFootDown FOOT_DELTA, RightHipCentre, RightFootUp FOOT_DELTA],
     [100, LeftHipCentre, LeftFootDown FOOT_DELTA, RightHipCentre, RightFootUp FOOT_DELTA],
     [300, LeftHipCentre, LeftFootFlat, RightHipCentre, RightFootFlat]]"

definition shakeLeftLegAnim :: "'a::len anim" where
  "shakeLeftLegAnim =
    [[12, 0, 0, 0, 0],
     [300, LeftHipCentre, LeftFootDown FOOT_DELTA, RightHipCentre, RightFootUp FOOT_DELTA],
     [100, LeftHipIn HIP_DELTA, LeftFootDown FOOT_DELTA, RightHipCentre, RightFootUp FOOT_DELTA],
     [100, LeftHipCentre, LeftFootDown FOOT_DELTA, RightHipCentre, RightFootUp FOOT_DELTA],
     [100, LeftHipOut HIP_DELTA, LeftFootDown FOOT_DELTA, RightHipCentre, RightFootUp FOOT_DELTA],
     [100, LeftHipCentre, LeftFootDown FOOT_DELTA, RightHipCentre, RightFootUp FOOT_DELTA],
     [100, LeftHipIn HIP_DELTA, LeftFootDown FOOT_DELTA, RightHipCentre, RightFootUp FOOT_DELTA],
     [100, LeftHipCentre, LeftFootDown FOOT_DELTA, RightHipCentre, RightFootUp FOOT_DELTA],
     [100, LeftHipOut HIP_DELTA, LeftFootDown FOOT_DELTA, RightHipCentre, RightFootUp FOOT_DELTA],
     [100, LeftHipCentre, LeftFootDown FOOT_DELTA, RightHipCentre, RightFootUp FOOT_DELTA],
     [100, LeftHipIn HIP_DELTA, LeftFootDown FOOT_DELTA, RightHipCentre, RightFootUp FOOT_DELTA],
     [100, LeftHipCentre, LeftFootDown FOOT_DELTA, RightHipCentre, RightFootUp FOOT_DELTA],
     [300, LeftHipCentre, LeftFootFlat, RightHipCentre, RightFootFlat]]"

definition shakeRightLegAnim :: "'a::len anim" where
  "shakeRightLegAnim =
    [[12, 0, 0, 0, 0],
     [300, LeftHipCentre, LeftFootUp FOOT_DELTA, RightHipCentre, RightFootDown FOOT_DELTA],
     [100, LeftHipCentre, LeftFootUp FOOT_DELTA, RightHipIn HIP_DELTA, RightFootDown FOOT_DELTA],
     [100, LeftHipCentre, LeftFootUp FOOT_DELTA, RightHipCentre, RightFootDown FOOT_DELTA],
     [100, LeftHipCentre, LeftFootUp FOOT_DELTA, RightHipOut HIP_DELTA, RightFootDown FOOT_DELTA],
     [100, LeftHipCentre, LeftFootUp FOOT_DELTA, RightHipCentre, RightFootDown FOOT_DELTA],
     [100, LeftHipCentre, LeftFootUp FOOT_DELTA, RightHipIn HIP_DELTA, RightFootDown FOOT_DELTA],
     [100, LeftHipCentre, LeftFootUp FOOT_DELTA, RightHipCentre, RightFootDown FOOT_DELTA],
     [100, LeftHipCentre, LeftFootUp FOOT_DELTA, RightHipOut HIP_DELTA, RightFootDown FOOT_DELTA],
     [100, LeftHipCentre, LeftFootUp FOOT_DELTA, RightHipCentre, RightFootDown FOOT_DELTA],
     [100, LeftHipCentre, LeftFootUp FOOT_DELTA, RightHipIn HIP_DELTA, RightFootDown FOOT_DELTA],
     [100, LeftHipCentre, LeftFootUp FOOT_DELTA, RightHipCentre, RightFootDown FOOT_DELTA],
     [300, LeftHipCentre, LeftFootFlat, RightHipCentre, RightFootFlat]]"

definition setServosAnim1 :: "'a::len anim" where
  "setServosAnim1 =
    [[1, 0, 0, 0, 0],
     [0, LeftHipCentre, LeftFootFlat, RightHipCentre, RightFootFlat]]"

definition setServosAnim2 :: "'a::len anim" where
  "setServosAnim2 =
    [[1, 0, 0, 0, 0],
     [0, LeftHipCentre, LeftFootFlat, RightHipCentre, RightFootFlat]]"

text \<open>
  The C code passes animations around as pointers (\<^verbatim>\<open>int (*)[5]\<close>) and compares them by
  address (\<^verbatim>\<open>currAnim != setServosAnim1\<close>). \<open>anim_ptr\<close> is the type of these addresses, one
  per array of the sketch; the null pointer is \<open>None\<close> of \<open>anim_ptr option\<close>. The contents of
  the arrays live in the field \<open>mem\<close> of the machine state, because \<^verbatim>\<open>SetServos\<close> overwrites
  two of them at run time.
\<close>

datatype anim_ptr =
    P_standStraightAnim | P_walkForwardAnim | P_walkBackwardAnim | P_walkEndAnim
  | P_turnLeftAnim | P_turnRightAnim | P_shakeHeadAnim | P_wobbleAnim | P_wobbleLeftAnim
  | P_wobbleRightAnim | P_tapFeetAnim | P_tapLeftFootAnim | P_tapRightFootAnim
  | P_bounceAnim | P_shakeLegsAnim | P_shakeLeftLegAnim | P_shakeRightLegAnim
  | P_setServosAnim1 | P_setServosAnim2

fun initial_mem :: "anim_ptr \<Rightarrow> 'a::len anim" where
  "initial_mem P_standStraightAnim = standStraightAnim"
| "initial_mem P_walkForwardAnim = walkForwardAnim"
| "initial_mem P_walkBackwardAnim = walkBackwardAnim"
| "initial_mem P_walkEndAnim = walkEndAnim"
| "initial_mem P_turnLeftAnim = turnLeftAnim"
| "initial_mem P_turnRightAnim = turnRightAnim"
| "initial_mem P_shakeHeadAnim = shakeHeadAnim"
| "initial_mem P_wobbleAnim = wobbleAnim"
| "initial_mem P_wobbleLeftAnim = wobbleLeftAnim"
| "initial_mem P_wobbleRightAnim = wobbleRightAnim"
| "initial_mem P_tapFeetAnim = tapFeetAnim"
| "initial_mem P_tapLeftFootAnim = tapLeftFootAnim"
| "initial_mem P_tapRightFootAnim = tapRightFootAnim"
| "initial_mem P_bounceAnim = bounceAnim"
| "initial_mem P_shakeLegsAnim = shakeLegsAnim"
| "initial_mem P_shakeLeftLegAnim = shakeLeftLegAnim"
| "initial_mem P_shakeRightLegAnim = shakeRightLegAnim"
| "initial_mem P_setServosAnim1 = setServosAnim1"
| "initial_mem P_setServosAnim2 = setServosAnim2"

subsection \<open>Global state\<close>

datatype parser_state =
    PARSER_WAITING | PARSER_COMMAND | PARSER_PARAM nat | PARSER_EXECUTE

text \<open>
  \<open>PARSER_PARAM k\<close> stands for the constants \<^verbatim>\<open>PARSER_PARAM1 .. PARSER_PARAM5\<close>
  (\<open>k = 1 .. 5\<close>) of the sketch.
\<close>

record (overloaded) ('a::len) parser =
  currParserState :: parser_state
  currCmd :: string
  currCmdIndex :: nat
  currParam1Val :: "'a word"
  currParam2Val :: "'a word"
  currParam3Val :: "'a word"
  currParam4Val :: "'a word"
  currParam5Val :: "'a word"
  currParamIndex :: nat
  currParamNegative :: bool

record (overloaded) ('a::len) machine =
  mem :: "anim_ptr \<Rightarrow> 'a anim"
  timeAtLastAnimUpdate :: long
  currAnim :: "anim_ptr option"
  finishAnim :: "anim_ptr option"
  timeAtStartOfFrame :: long
  targetFrame :: "'a word"
  animNumLoops :: "'a word"
  animCompleteStr :: string
  animInProgress :: bool
  nextAnim :: "anim_ptr option"
  nextFinishAnim :: "anim_ptr option"
  nextAnimNumLoops :: "'a word"
  nextAnimCompleteStr :: string
  interruptInProgressAnim :: bool
  currLeftHip :: "'a word"
  currLeftFoot :: "'a word"
  currRightHip :: "'a word"
  currRightFoot :: "'a word"
  startLeftHip :: "'a word"
  startLeftFoot :: "'a word"
  startRightHip :: "'a word"
  startRightFoot :: "'a word"
  serialOut :: "string list"
  servoOut :: "('a word \<times> 'a word \<times> 'a word \<times> 'a word) list"

text \<open>
  \<open>serialOut\<close> is the text written to \<^verbatim>\<open>softwareSerial\<close>, one entry per line (each line
  of the sketch is finished by a \<^verbatim>\<open>println\<close>); \<open>servoOut\<close> is the list of the positions
  written to the four servos by \<^verbatim>\<open>UpdateServos\<close>, oldest first.
\<close>

datatype fault = NullPointer | OutOfBounds | DivByZero

text \<open>
  The faults are the places where the C program leaves defined behaviour: reading through a
  null animation pointer, reading a row that the table does not have, and dividing by a zero
  tween time in the interpolation. The last one is a floating point division, which does not
  trap: it yields a NaN or an infinity, whose conversion back to \<^verbatim>\<open>int\<close> has no defined
  value. The model stops with \<open>Inl DivByZero\<close> instead of inventing a servo position.
\<close>

section \<open>The command parser\<close>

definition START_CHAR :: char where "START_CHAR = CHR ''<''"
definition END_CHAR :: char where "END_CHAR = CHR ''>''"
definition SEP_CHAR :: char where "SEP_CHAR = CHR '',''"
definition CMD_LENGTH :: nat where "CMD_LENGTH = 2"
definition MAX_PARAM_LENGTH :: nat where "MAX_PARAM_LENGTH = 6"

definition code :: "char \<Rightarrow> nat" where
  "code c = of_char c"

text \<open>
  Characters are compared by their codes. The comparisons of the sketch only ask whether a
  byte lies outside \<open>'A' .. 'Z'\<close> or outside \<open>'0' .. '9'\<close>, which has the same answer for a
  signed and for an unsigned \<^verbatim>\<open>char\<close>.
\<close>

fun getParam :: "nat \<Rightarrow> 'a::len parser \<Rightarrow> 'a word" where
  "getParam k p =
     (if k = 1 then currParam1Val p else if k = 2 then currParam2Val p
      else if k = 3 then currParam3Val p else if k = 4 then currParam4Val p
      else currParam5Val p)"

fun setParam :: "nat \<Rightarrow> 'a::len word \<Rightarrow> 'a parser \<Rightarrow> 'a parser" where
  "setParam k v p =
     (if k = 1 then p\<lparr>currParam1Val := v\<rparr> else if k = 2 then p\<lparr>currParam2Val := v\<rparr>
      else if k = 3 then p\<lparr>currParam3Val := v\<rparr> else if k = 4 then p\<lparr>currParam4Val := v\<rparr>
      else p\<lparr>currParam5Val := v\<rparr>)"

definition applySign :: "nat \<Rightarrow> 'a::len parser \<Rightarrow> 'a parser" where
  "applySign k p =
     (if currParamNegative p then setParam k (-1 * getParam k p) p else p)"

text \<open>
  The branches of \<^verbatim>\<open>loop_Parser\<close> for \<^verbatim>\<open>PARSER_PARAM1 .. PARSER_PARAM5\<close> are the same text
  up to the number of the parameter; \<open>param_char k\<close> is that text. The branch for
  \<^verbatim>\<open>PARSER_PARAM5\<close> has no case for the separator, so there a comma reaches the digit test.
\<close>

definition param_char :: "nat \<Rightarrow> char \<Rightarrow> 'a::len parser \<Rightarrow> 'a parser" where
  "param_char k c p =
     (if c = SEP_CHAR \<and> k < 5 then
        (applySign k p)\<lparr>currParserState := PARSER_PARAM (k + 1),
                        currParamIndex := 0, currParamNegative := False\<rparr>
      else if c = END_CHAR then
        (applySign k p)\<lparr>currParserState := PARSER_EXECUTE\<rparr>
      else if currParamIndex p = 0 \<and> c = CHR ''-'' then
        p\<lparr>currParamNegative := True, currParamIndex := currParamIndex p + 1\<rparr>
      else if currParamIndex p \<ge> MAX_PARAM_LENGTH \<or> code c < code CHR ''0''
              \<or> code c > code CHR ''9'' then
        p\<lparr>currParserState := PARSER_WAITING\<rparr>
      else
        (setParam k ((getParam k p * 10) + of_nat (code c - code CHR ''0'')) p)
          \<lparr>currParamIndex := currParamIndex p + 1\<rparr>)"

text \<open>The state machine of \<^verbatim>\<open>loop_Parser\<close> for one received byte (lines 790 to 1108).\<close>

definition parse_char :: "char \<Rightarrow> 'a::len parser \<Rightarrow> 'a parser" where
  "parse_char c p =
     (case currParserState p of
        PARSER_WAITING \<Rightarrow>
          (if c = START_CHAR then
             p\<lparr>currParserState := PARSER_COMMAND, currCmdIndex := 0, currCmd := ''--'',
               currParam1Val := 0, currParam2Val := 0, currParam3Val := 0,
               currParam4Val := 0, currParam5Val := 0\<rparr>
           else p)
      | PARSER_COMMAND \<Rightarrow>
          (if c = SEP_CHAR then
             (if currCmdIndex p = CMD_LENGTH then
                p\<lparr>currParserState := PARSER_PARAM 1, currParamIndex := 0,
                  currParamNegative := False\<rparr>
              else p\<lparr>currParserState := PARSER_WAITING\<rparr>)
           else if c = END_CHAR then
             (if currCmdIndex p = CMD_LENGTH then p\<lparr>currParserState := PARSER_EXECUTE\<rparr>
              else p\<lparr>currParserState := PARSER_WAITING\<rparr>)
           else if currCmdIndex p \<ge> CMD_LENGTH \<or> code c < code CHR ''A''
                   \<or> code c > code CHR ''Z'' then
             p\<lparr>currParserState := PARSER_WAITING\<rparr>
           else
             p\<lparr>currCmd := (currCmd p)[currCmdIndex p := c],
               currCmdIndex := currCmdIndex p + 1\<rparr>)
      | PARSER_PARAM k \<Rightarrow> (if 1 \<le> k \<and> k \<le> 5 then param_char k c p else p)
      | PARSER_EXECUTE \<Rightarrow> p)"

section \<open>The animation system\<close>

subsection \<open>Queueing commands\<close>

definition PlayAnimNumTimes ::
  "anim_ptr option \<Rightarrow> anim_ptr option \<Rightarrow> 'a::len word \<Rightarrow> string option \<Rightarrow> 'a machine \<Rightarrow> 'a machine"
where
  "PlayAnimNumTimes animToPlay finAnim numTimes completeStr s =
     s\<lparr>nextAnim := animToPlay, nextFinishAnim := finAnim, nextAnimNumLoops := numTimes,
       nextAnimCompleteStr := (case completeStr of None \<Rightarrow> ''--'' | Some str \<Rightarrow> take 2 str)\<rparr>"

definition PlayAnim ::
  "anim_ptr option \<Rightarrow> anim_ptr option \<Rightarrow> string option \<Rightarrow> 'a::len machine \<Rightarrow> 'a machine"
where
  "PlayAnim animToPlay finAnim completeStr s = PlayAnimNumTimes animToPlay finAnim 1 completeStr s"

definition LoopAnim ::
  "anim_ptr option \<Rightarrow> anim_ptr option \<Rightarrow> string option \<Rightarrow> 'a::len machine \<Rightarrow> 'a machine"
where
  "LoopAnim animToPlay finAnim completeStr s =
     PlayAnimNumTimes animToPlay finAnim (-1) completeStr s"

definition StopAnim :: "string option \<Rightarrow> 'a::len machine \<Rightarrow> 'a machine" where
  "StopAnim completeStr s = PlayAnimNumTimes (Some P_standStraightAnim) None 1 completeStr s"

definition StopAnimImmediate :: "string option \<Rightarrow> 'a::len machine \<Rightarrow> 'a machine" where
  "StopAnimImmediate completeStr s =
     PlayAnimNumTimes (Some P_standStraightAnim) None 1 completeStr
       (s\<lparr>interruptInProgressAnim := True\<rparr>)"

text \<open>
  \<^verbatim>\<open>SetServos\<close> chooses one of the two scratch tables by comparing \<^verbatim>\<open>currAnim\<close> with the
  address of the first one, overwrites the five cells of row 1 of the chosen table, and
  queues it.
\<close>

definition tweenServoData :: "'a::len machine \<Rightarrow> anim_ptr" where
  "tweenServoData s =
     (if currAnim s \<noteq> Some P_setServosAnim1 then P_setServosAnim1 else P_setServosAnim2)"

definition SetServos ::
  "'a::len word \<Rightarrow> 'a word \<Rightarrow> 'a word \<Rightarrow> 'a word \<Rightarrow> 'a word \<Rightarrow> string option
     \<Rightarrow> 'a machine \<Rightarrow> 'a machine"
where
  "SetServos tweenTime leftHip leftFoot rightHip rightFoot completeStr s =
     (let s1 = s\<lparr>nextAnimCompleteStr :=
                    (case completeStr of None \<Rightarrow> ''--'' | Some str \<Rightarrow> take 2 str)\<rparr>;
          buf = tweenServoData s1;
          s2 = s1\<lparr>mem := (mem s1)(buf := (mem s1 buf)
                     [1 := [tweenTime, LeftHipIn leftHip, LeftFootUp leftFoot,
                            RightHipIn rightHip, RightFootUp rightFoot]])\<rparr>
      in PlayAnim (Some buf) None completeStr s2)"

subsection \<open>Executing a parsed command\<close>

text \<open>
  Every animation branch of the handler computes \<^verbatim>\<open>numTimes\<close> from the first parameter in
  the same way: a negative count becomes -1, any other count is passed on unchanged.
\<close>

definition numTimes :: "'a::len word \<Rightarrow> 'a word" where
  "numTimes param1 = (if param1 <s 0 then -1 else param1)"

text \<open>
  The handler reads the parsed command from \<^verbatim>\<open>currCmd\<close> and
  \<^verbatim>\<open>currParam1Val .. currParam5Val\<close>; \<open>dispatched p\<close> collects these six values, and
  \<open>execute_command\<close> is the handler (lines 1124 to 1338) as a function of them.
\<close>

type_synonym 'a command = "string \<times> 'a word \<times> 'a word \<times> 'a word \<times> 'a word \<times> 'a word"

definition dispatched :: "'a::len parser \<Rightarrow> 'a command" where
  "dispatched p =
     (currCmd p, currParam1Val p, currParam2Val p, currParam3Val p, currParam4Val p,
      currParam5Val p)"

definition is_cmd :: "string \<Rightarrow> char \<Rightarrow> char \<Rightarrow> bool" where
  "is_cmd cmd c0 c1 \<longleftrightarrow> cmd ! 0 = c0 \<and> cmd ! 1 = c1"

definition execute_command :: "'a::len command \<Rightarrow> 'a machine \<Rightarrow> 'a machine" where
  "execute_command = (\<lambda>(cmd, param1, param2, param3, param4, param5) m.
      if is_cmd cmd CHR ''O'' CHR ''K'' then m\<lparr>serialOut := serialOut m @ [''<OK>'']\<rparr>
      else if is_cmd cmd CHR ''S'' CHR ''V'' then
        SetServos (if param1 <s 0 then 0 else param1) param2 param3 param4 param5 (Some ''SV'') m
      else if is_cmd cmd CHR ''S'' CHR ''T'' then StopAnim (Some ''ST'') m
      else if is_cmd cmd CHR ''S'' CHR ''I'' then StopAnimImmediate (Some ''SI'') m
      else if is_cmd cmd CHR ''F'' CHR ''W'' then
        PlayAnimNumTimes (Some P_walkForwardAnim) (Some P_walkEndAnim) (numTimes param1) (Some ''FW'') m
      else if is_cmd cmd CHR ''B'' CHR ''W'' then
        PlayAnimNumTimes (Some P_walkBackwardAnim) (Some P_walkEndAnim) (numTimes param1) (Some ''BW'') m
      else if is_cmd cmd CHR ''L'' CHR ''T'' then
        PlayAnimNumTimes (Some P_turnLeftAnim) None (numTimes param1) (Some ''LT'') m
      else if is_cmd cmd CHR ''R'' CHR ''T'' then
        PlayAnimNumTimes (Some P_turnRightAnim) None (numTimes param1) (Some ''RT'') m
      else if is_cmd cmd CHR ''S'' CHR ''X'' then
        PlayAnimNumTimes (Some P_shakeHeadAnim) None (numTimes param1) (Some ''SX'') m
      else if is_cmd cmd CHR ''B'' CHR ''X'' then
        PlayAnimNumTimes (Some P_bounceAnim) None (numTimes param1) (Some ''BX'') m
      else if is_cmd cmd CHR ''W'' CHR ''X'' then
        PlayAnimNumTimes (Some P_wobbleAnim) None (numTimes param1) (Some ''WX'') m
      else if is_cmd cmd CHR ''W'' CHR ''Y'' then
        PlayAnimNumTimes (Some P_wobbleLeftAnim) None (numTimes param1) (Some ''WY'') m
      else if is_cmd cmd CHR ''W'' CHR ''Z'' then
        PlayAnimNumTimes (Some P_wobbleRightAnim) None (numTimes param1) (Some ''WZ'') m
      else if is_cmd cmd CHR ''T'' CHR ''X'' then
        PlayAnimNumTimes (Some P_tapFeetAnim) None (numTimes param1) (Some ''TX'') m
      else if is_cmd cmd CHR ''T'' CHR ''Y'' then
        PlayAnimNumTimes (Some P_tapLeftFootAnim) None (numTimes param1) (Some ''TY'') m
      else if is_cmd cmd CHR ''T'' CHR ''Z'' then
        PlayAnimNumTimes (Some P_tapRightFootAnim) None (numTimes param1) (Some ''TZ'') m
      else if is_cmd cmd CHR ''L'' CHR ''X'' then
        PlayAnimNumTimes (Some P_shakeLegsAnim) None (numTimes param1) (Some ''LX'') m
      else if is_cmd cmd CHR ''L'' CHR ''Y'' then
        PlayAnimNumTimes (Some P_shakeLeftLegAnim) None (numTimes param1) (Some ''LY'') m
      else if is_cmd cmd CHR ''L'' CHR ''Z'' then
        PlayAnimNumTimes (Some P_shakeRightLegAnim) None (numTimes param1) (Some ''LZ'') m
      else m)"

text \<open>
  \<^verbatim>\<open>loop_Parser\<close> for one available byte: the state machine, then the handler when the byte
  completed a command, then the unconditional return to \<^verbatim>\<open>PARSER_WAITING\<close>.
\<close>

definition loop_Parser :: "char \<Rightarrow> 'a::len parser \<times> 'a machine \<Rightarrow> 'a parser \<times> 'a machine" where
  "loop_Parser c pm =
     (let p1 = parse_char c (fst pm) in
      if currParserState p1 = PARSER_EXECUTE
      then (p1\<lparr>currParserState := PARSER_WAITING\<rparr>, execute_command (dispatched p1) (snd pm))
      else (p1, snd pm))"

text \<open>
  Observations on the parser. \<open>dispatches cs p\<close> is the list of the commands that reach the
  handler while the bytes \<open>cs\<close> are read one by one from parser state \<open>p\<close>;
  \<open>run_Parser\<close> is the same run on the whole state.
\<close>

fun dispatches :: "string \<Rightarrow> 'a::len parser \<Rightarrow> 'a command list" where
  "dispatches [] p = []"
| "dispatches (c # cs) p =
     (let p1 = parse_char c p in
      if currParserState p1 = PARSER_EXECUTE
      then dispatched p1 # dispatches cs (p1\<lparr>currParserState := PARSER_WAITING\<rparr>)
      else dispatches cs p1)"

fun run_Parser :: "string \<Rightarrow> 'a::len parser \<times> 'a machine \<Rightarrow> 'a parser \<times> 'a machine" where
  "run_Parser [] pm = pm"
| "run_Parser (c # cs) pm = run_Parser cs (loop_Parser c pm)"

subsection \<open>The animation update\<close>

definition millisBetweenAnimUpdate :: long where "millisBetweenAnimUpdate = 20"

definition UpdateServos :: "'a::len machine \<Rightarrow> 'a machine" where
  "UpdateServos s =
     s\<lparr>servoOut := servoOut s @ [(currLeftHip s, currLeftFoot s, currRightHip s, currRightFoot s)]\<rparr>"

text \<open>
  \<open>frame_row s p i\<close> reads row \<open>i\<close> of the table that \<open>p\<close> points to, as \<^verbatim>\<open>currAnim[targetFrame]\<close>
  does. The read is defined only for a non-null pointer and a row the table has.
\<close>

definition frame_row :: "'a::len machine \<Rightarrow> anim_ptr option \<Rightarrow> 'a word \<Rightarrow> fault + 'a word list" where
  "frame_row s p i =
     (case p of
        None \<Rightarrow> Inl NullPointer
      | Some a \<Rightarrow>
          (if 0 \<le> sint i \<and> nat (sint i) < length (mem s a) \<and> length (mem s a ! nat (sint i)) = 5
           then Inr (mem s a ! nat (sint i)) else Inl OutOfBounds))"

definition NumOfFrames :: "'a::len machine \<Rightarrow> anim_ptr option \<Rightarrow> fault + 'a word" where
  "NumOfFrames s animData =
     (case frame_row s animData 0 of Inl e \<Rightarrow> Inl e | Inr r \<Rightarrow> Inr (r ! 0))"

text \<open>
  Lines 1507 to 1553: start the queued animation when nothing is playing or when an
  interrupt was requested.
\<close>

definition start_next_anim :: "long \<Rightarrow> 'a::len machine \<Rightarrow> 'a machine" where
  "start_next_anim currTime s =
     (if nextAnim s \<noteq> None \<and> (\<not> animInProgress s \<or> interruptInProgressAnim s) then
        (let s1 = (if interruptInProgressAnim s then
                     s\<lparr>serialOut := serialOut s @ [''<'' @ animCompleteStr s @ '',-1>''],
                       startLeftHip := currLeftHip s, startLeftFoot := currLeftFoot s,
                       startRightHip := currRightHip s, startRightFoot := currRightFoot s,
                       interruptInProgressAnim := False\<rparr>
                   else s)
         in s1\<lparr>currAnim := nextAnim s1, finishAnim := nextFinishAnim s1,
               animCompleteStr := nextAnimCompleteStr s1,
               nextAnim := None, nextFinishAnim := None, nextAnimCompleteStr := ''--'',
               animNumLoops := nextAnimNumLoops s1,
               timeAtStartOfFrame := currTime, targetFrame := 1, animInProgress := True\<rparr>)
      else s)"

text \<open>
  Lines 1607 to 1691: the current animation has played its last frame. The two places that
  switch to the finish animation, and the two that print the completion line, are the same
  text in the sketch.
\<close>

definition switch_to_finish :: "long \<Rightarrow> 'a::len machine \<Rightarrow> 'a machine" where
  "switch_to_finish currTime s =
     s\<lparr>currAnim := finishAnim s, finishAnim := None, animNumLoops := 1,
       timeAtStartOfFrame := currTime, targetFrame := 1, animInProgress := True\<rparr>"

definition notify_complete :: "'a::len machine \<Rightarrow> 'a machine" where
  "notify_complete s = s\<lparr>serialOut := serialOut s @ [''<'' @ animCompleteStr s @ ''>'']\<rparr>"

definition end_of_anim :: "long \<Rightarrow> 'a::len machine \<Rightarrow> 'a machine" where
  "end_of_anim currTime s0 =
     (let s = s0\<lparr>animInProgress := False\<rparr> in
      if animNumLoops s <s 0 \<and> nextAnim s = None then
        LoopAnim (currAnim s) (finishAnim s) (Some (animCompleteStr s)) s
      else if animNumLoops s <s 0 \<and> nextAnim s \<noteq> None then
        (if finishAnim s \<noteq> None then switch_to_finish currTime s else notify_complete s)
      else if 1 <s animNumLoops s \<and> nextAnim s = None then
        PlayAnimNumTimes (currAnim s) (finishAnim s) (animNumLoops s - 1)
          (Some (animCompleteStr s)) s
      else
        (if finishAnim s \<noteq> None then switch_to_finish currTime s else notify_complete s))"

text \<open>
  Lines 1563 to 1692: when the time spent in the current frame exceeds the tween time of
  the target keyframe (\<open>frame_due\<close>), the servos snap to the keyframe (only the joints whose
  value is not negative), these positions become the start of the next frame, and the target
  moves to the next frame (\<open>snap_to_keyframe\<close>, lines 1566 to 1603); past the last frame the
  animation ends. \<^verbatim>\<open>timeInCurrFrame\<close> is an \<^verbatim>\<open>int\<close>: the \<^verbatim>\<open>long\<close> difference is converted to
  the width of \<^verbatim>\<open>int\<close>.
\<close>

definition timeInCurrFrame :: "long \<Rightarrow> 'a::len machine \<Rightarrow> 'a word" where
  "timeInCurrFrame currTime s = scast (currTime - timeAtStartOfFrame s)"

definition frame_due :: "long \<Rightarrow> 'a::len word list \<Rightarrow> 'a machine \<Rightarrow> bool" where
  "frame_due currTime kf s \<longleftrightarrow> kf ! TWEEN_TIME_VALUE <s timeInCurrFrame currTime s"

definition snap_to_keyframe :: "long \<Rightarrow> 'a::len word list \<Rightarrow> 'a machine \<Rightarrow> 'a machine" where
  "snap_to_keyframe currTime kf s =
     (let s1 = s\<lparr>currLeftHip := (if 0 \<le>s kf ! LEFT_HIP_VALUE
                                  then kf ! LEFT_HIP_VALUE else currLeftHip s),
                  currLeftFoot := (if 0 \<le>s kf ! LEFT_FOOT_VALUE
                                   then kf ! LEFT_FOOT_VALUE else currLeftFoot s),
                  currRightHip := (if 0 \<le>s kf ! RIGHT_HIP_VALUE
                                   then kf ! RIGHT_HIP_VALUE else currRightHip s),
                  currRightFoot := (if 0 \<le>s kf ! RIGHT_FOOT_VALUE
                                    then kf ! RIGHT_FOOT_VALUE else currRightFoot s)\<rparr>;
          s2 = UpdateServos s1;
          s3 = s2\<lparr>startLeftHip := currLeftHip s2, startLeftFoot := currLeftFoot s2,
                   startRightHip := currRightHip s2, startRightFoot := currRightFoot s2\<rparr>
      in s3\<lparr>targetFrame := targetFrame s3 + 1, timeAtStartOfFrame := currTime\<rparr>)"

definition advance_frame :: "long \<Rightarrow> 'a::len machine \<Rightarrow> fault + 'a machine" where
  "advance_frame currTime s =
     (case frame_row s (currAnim s) (targetFrame s) of
        Inl e \<Rightarrow> Inl e
      | Inr kf \<Rightarrow>
          if frame_due currTime kf s then
            (case NumOfFrames (snap_to_keyframe currTime kf s) (currAnim s) of
               Inl e \<Rightarrow> Inl e
             | Inr n \<Rightarrow>
                 if n <s targetFrame (snap_to_keyframe currTime kf s)
                 then Inr (end_of_anim currTime (snap_to_keyframe currTime kf s))
                 else Inr (snap_to_keyframe currTime kf s))
          else Inr s)"

text \<open>
  Lines 1696 to 1724: linear interpolation between the start-of-frame position and the
  target. The sketch computes in \<^verbatim>\<open>float\<close>, the IEEE 754 single precision format:
  \<^verbatim>\<open>frameTimeFraction = (currTime - timeAtStartOfFrame) / ((float) tweenTime)\<close> and
  \<^verbatim>\<open>curr = start + ((target - start) * frameTimeFraction)\<close>. By the usual arithmetic
  conversions the \<^verbatim>\<open>long\<close> difference, the \<^verbatim>\<open>int\<close> difference \<^verbatim>\<open>target - start\<close> and the
  \<^verbatim>\<open>int\<close> \<^verbatim>\<open>start\<close> are each converted to \<^verbatim>\<open>float\<close>, every operation rounds its result
  to \<^verbatim>\<open>float\<close>, and the assignment converts the sum back to \<^verbatim>\<open>int\<close> by truncation towards
  zero.

  A finite \<^verbatim>\<open>float\<close> is modelled by the rational number it stands for. \<open>float_round x\<close> is
  the \<^verbatim>\<open>float\<close> nearest to \<open>x\<close>, ties going to the even significand: with
  \<open>2 ^ e \<le> \<bar>x\<bar> < 2 ^ (e + 1)\<close> (\<open>binary_exponent\<close>), \<open>x\<close> is rounded to a multiple of
  \<open>2 ^ (e - 23)\<close>, which leaves 24 significant bits; below \<open>2 ^ - 126\<close> the multiples of
  \<open>2 ^ - 149\<close> remain. The sign of a zero cannot be observed in these formulas. The largest
  magnitude that they produce is \<open>2 ^ (w + 30)\<close> for an \<^verbatim>\<open>int\<close> of \<open>w\<close> bits, so nothing exceeds
  the range of \<^verbatim>\<open>float\<close> for an \<^verbatim>\<open>int\<close> of fewer than 98 bits, and the model does not bound
  the exponent from above. C++ leaves the conversion to \<^verbatim>\<open>int\<close> of a value outside the range
  of \<^verbatim>\<open>int\<close> undefined; \<open>lerp\<close> keeps the low bits of the truncated value there, as the
  integer operations of the model do.

  A zero tween time is the fault \<open>DivByZero\<close>: the division is executed before any of the
  four joints is looked at. \<open>tween\<close> is the update of the four positions (lines 1703 to
  1723).
\<close>

definition pow2 :: "int \<Rightarrow> rat" where
  "pow2 k = (if 0 \<le> k then 2 ^ nat k else 1 / 2 ^ nat (- k))"

text \<open>The number of binary digits of a positive integer.\<close>

function bit_length :: "int \<Rightarrow> nat" where
  "bit_length n = (if n \<le> 0 then 0 else Suc (bit_length (n div 2)))"
  by pat_completeness auto
termination by (relation "measure nat") auto

definition binary_exponent :: "rat \<Rightarrow> int" where
  "binary_exponent x =
     (if 1 \<le> \<bar>x\<bar> then int (bit_length \<lfloor>\<bar>x\<bar>\<rfloor>) - 1
      else - int (bit_length (\<lceil>1 / \<bar>x\<bar>\<rceil> - 1)))"

definition round_half_even :: "rat \<Rightarrow> int" where
  "round_half_even r =
     (if r - of_int \<lfloor>r\<rfloor> < 1 / 2 then \<lfloor>r\<rfloor>
      else if 1 / 2 < r - of_int \<lfloor>r\<rfloor> then \<lfloor>r\<rfloor> + 1
      else if even \<lfloor>r\<rfloor> then \<lfloor>r\<rfloor> else \<lfloor>r\<rfloor> + 1)"

definition float_round :: "rat \<Rightarrow> rat" where
  "float_round x =
     (if x = 0 then 0
      else of_int (round_half_even (x / pow2 (max (binary_exponent x) (- 126) - 23)))
             * pow2 (max (binary_exponent x) (- 126) - 23))"

text \<open>The conversion of a \<^verbatim>\<open>float\<close> to an integer drops the fraction.\<close>

definition trunc :: "rat \<Rightarrow> int" where
  "trunc x = (if 0 \<le> x then \<lfloor>x\<rfloor> else \<lceil>x\<rceil>)"

definition frameTimeFraction :: "int \<Rightarrow> int \<Rightarrow> rat" where
  "frameTimeFraction elapsed tweenTime =
     float_round (float_round (of_int elapsed) / float_round (of_int tweenTime))"

definition lerp :: "'a::len word \<Rightarrow> 'a word \<Rightarrow> int \<Rightarrow> int \<Rightarrow> 'a word" where
  "lerp start target elapsed tweenTime =
     word_of_int (trunc (float_round
       (float_round (of_int (sint start))
        + float_round (float_round (of_int (sint (target - start)))
                       * frameTimeFraction elapsed tweenTime))))"

definition tween :: "long \<Rightarrow> 'a::len word list \<Rightarrow> 'a machine \<Rightarrow> 'a machine" where
  "tween currTime kf s =
     (let elapsed = sint (currTime - timeAtStartOfFrame s);
          tweenTime = sint (kf ! TWEEN_TIME_VALUE)
      in UpdateServos
           (s\<lparr>currLeftHip := (if 0 \<le>s kf ! LEFT_HIP_VALUE
                then lerp (startLeftHip s) (kf ! LEFT_HIP_VALUE) elapsed tweenTime
                else currLeftHip s),
              currLeftFoot := (if 0 \<le>s kf ! LEFT_FOOT_VALUE
                then lerp (startLeftFoot s) (kf ! LEFT_FOOT_VALUE) elapsed tweenTime
                else currLeftFoot s),
              currRightHip := (if 0 \<le>s kf ! RIGHT_HIP_VALUE
                then lerp (startRightHip s) (kf ! RIGHT_HIP_VALUE) elapsed tweenTime
                else currRightHip s),
              currRightFoot := (if 0 \<le>s kf ! RIGHT_FOOT_VALUE
                then lerp (startRightFoot s) (kf ! RIGHT_FOOT_VALUE) elapsed tweenTime
                else currRightFoot s)\<rparr>))"

definition interpolate :: "long \<Rightarrow> 'a::len machine \<Rightarrow> fault + 'a machine" where
  "interpolate currTime s =
     (case frame_row s (currAnim s) (targetFrame s) of
        Inl e \<Rightarrow> Inl e
      | Inr kf \<Rightarrow> if kf ! TWEEN_TIME_VALUE = 0 then Inl DivByZero else Inr (tween currTime kf s))"

text \<open>
  \<^verbatim>\<open>loop_Animation\<close> at clock value \<open>currTime = millis()\<close>: nothing happens until 20 ms have
  passed since the last update; otherwise the three steps above run in order.
\<close>

definition loop_Animation :: "long \<Rightarrow> 'a::len machine \<Rightarrow> fault + 'a machine" where
  "loop_Animation currTime s =
     (if currTime <s timeAtLastAnimUpdate s + millisBetweenAnimUpdate then Inr s
      else
        (let s1 = start_next_anim currTime (s\<lparr>timeAtLastAnimUpdate := currTime\<rparr>) in
         if animInProgress s1 then
           (case advance_frame currTime s1 of
              Inl e \<Rightarrow> Inl e
            | Inr s2 \<Rightarrow> if animInProgress s2 then interpolate currTime s2 else Inr s2)
         else Inr s1))"

subsection \<open>Start-up\<close>

text \<open>
  The globals as the C start-up code leaves them (zero, or the initialiser of the
  declaration), then \<^verbatim>\<open>setup_Parser\<close> and \<^verbatim>\<open>setup_Animation\<close> at clock value \<open>t0\<close>;
  \<open>arduino_setup\<close> is the function \<^verbatim>\<open>setup()\<close> of the sketch without the servo attachment.
\<close>

definition initial_parser :: "'a::len parser" where
  "initial_parser =
     \<lparr>currParserState = PARSER_WAITING, currCmd = ''--'', currCmdIndex = 0,
      currParam1Val = 0, currParam2Val = 0, currParam3Val = 0, currParam4Val = 0,
      currParam5Val = 0, currParamIndex = 0, currParamNegative = False\<rparr>"

definition initial_machine :: "'a::len machine" where
  "initial_machine =
     \<lparr>mem = initial_mem, timeAtLastAnimUpdate = 0, currAnim = None, finishAnim = None,
      timeAtStartOfFrame = 0, targetFrame = 0, animNumLoops = 0, animCompleteStr = ''--'',
      animInProgress = False, nextAnim = None, nextFinishAnim = None, nextAnimNumLoops = 0,
      nextAnimCompleteStr = ''--'', interruptInProgressAnim = False,
      currLeftHip = 0, currLeftFoot = 0, currRightHip = 0, currRightFoot = 0,
      startLeftHip = 0, startLeftFoot = 0, startRightHip = 0, startRightFoot = 0,
      serialOut = [], servoOut = []\<rparr>"

definition setup_Parser :: "'a::len parser \<times> 'a machine \<Rightarrow> 'a parser \<times> 'a machine" where
  "setup_Parser pm =
     ((fst pm)\<lparr>currParserState := PARSER_WAITING\<rparr>,
      (snd pm)\<lparr>serialOut := serialOut (snd pm) @ [''<OK>'']\<rparr>)"

definition setup_Animation :: "long \<Rightarrow> 'a::len machine \<Rightarrow> 'a machine" where
  "setup_Animation t0 s =
     (let s1 = UpdateServos
                 (s\<lparr>currLeftHip := LEFT_HIP_CENTRE, currLeftFoot := LEFT_FOOT_CENTRE,
                    currRightHip := RIGHT_HIP_CENTRE, currRightFoot := RIGHT_FOOT_CENTRE\<rparr>)
      in s1\<lparr>startLeftHip := currLeftHip s1, startLeftFoot := currLeftFoot s1,
            startRightHip := currRightHip s1, startRightFoot := currRightFoot s1,
            timeAtLastAnimUpdate := t0, animInProgress := False,
            interruptInProgressAnim := False, currAnim := None, finishAnim := None,
            nextAnim := None, nextFinishAnim := None\<rparr>)"

definition arduino_setup :: "long \<Rightarrow> 'a::len parser \<times> 'a machine" where
  "arduino_setup t0 =
     (let pm = setup_Parser (initial_parser, initial_machine)
      in (fst pm, setup_Animation t0 (snd pm)))"

section \<open>Runs and observations\<close>

text \<open>
  One iteration of the Arduino \<^verbatim>\<open>loop()\<close>: the parser takes the received byte, if one is
  available, then the animation update runs at the current clock value.
\<close>

definition arduino_loop ::
  "char option \<Rightarrow> long \<Rightarrow> 'a::len parser \<times> 'a machine \<Rightarrow> fault + 'a parser \<times> 'a machine"
where
  "arduino_loop rx currTime pm =
     (let pm1 = (case rx of None \<Rightarrow> pm | Some c \<Rightarrow> loop_Parser c pm) in
      case loop_Animation currTime (snd pm1) of
        Inl e \<Rightarrow> Inl e
      | Inr m \<Rightarrow> Inr (fst pm1, m))"

text \<open>
  \<open>parser_after cs p\<close> is the parser state after the bytes \<open>cs\<close> have been read from state
  \<open>p\<close> (the parser half of \<open>run_Parser\<close>).
\<close>

fun parser_after :: "string \<Rightarrow> 'a::len parser \<Rightarrow> 'a parser" where
  "parser_after [] p = p"
| "parser_after (c # cs) p =
     (let p1 = parse_char c p in
      parser_after cs
        (if currParserState p1 = PARSER_EXECUTE then p1\<lparr>currParserState := PARSER_WAITING\<rparr>
         else p1))"

text \<open>
  The decimal notation of the round-trip claim: \<open>show_int n\<close> writes \<open>n\<close> in decimal, with a
  leading minus sign when it is negative, and \<open>sv_command n\<close> is the text \<open><SV,0,n,0,0,0>\<close>.
\<close>

definition digit_char :: "nat \<Rightarrow> char" where
  "digit_char d = ''0123456789'' ! d"

fun decimal :: "nat \<Rightarrow> string" where
  "decimal n = (if n < 10 then [digit_char n] else decimal (n div 10) @ [digit_char (n mod 10)])"

definition show_int :: "int \<Rightarrow> string" where
  "show_int n = (if n < 0 then CHR ''-'' # decimal (nat (- n)) else decimal (nat n))"

definition sv_command :: "int \<Rightarrow> string" where
  "sv_command n = ''<SV,0,'' @ show_int n @ '',0,0,0>''"

text \<open>
  \<open>run_ticks ts s\<close> calls \<^verbatim>\<open>loop_Animation\<close> at the clock values \<open>ts\<close>, in order, with no
  command arriving in between.
\<close>

fun run_ticks :: "long list \<Rightarrow> 'a::len machine \<Rightarrow> fault + 'a machine" where
  "run_ticks [] s = Inr s"
| "run_ticks (t # ts) s =
     (case loop_Animation t s of Inl e \<Rightarrow> Inl e | Inr s' \<Rightarrow> run_ticks ts s')"



definition one_pass :: "'a::len machine \<Rightarrow> anim_ptr \<Rightarrow> (anim_ptr option \<times> 'a word) list" where
  "one_pass s a = map (\<lambda>k. (Some a, of_nat k)) [1 ..< length (mem s a)]"

text \<open>The two kinds of notification lines.\<close>

definition complete_line :: "string \<Rightarrow> string" where
  "complete_line tag = ''<'' @ tag @ ''>''"

definition interrupted_line :: "string \<Rightarrow> string" where
  "interrupted_line tag = ''<'' @ tag @ '',-1>''"

text \<open>The four joints, to state facts about all of them at once.\<close>

datatype joint = LeftHip | LeftFoot | RightHip | RightFoot

fun column :: "joint \<Rightarrow> nat" where
  "column LeftHip = LEFT_HIP_VALUE"
| "column LeftFoot = LEFT_FOOT_VALUE"
| "column RightHip = RIGHT_HIP_VALUE"
| "column RightFoot = RIGHT_FOOT_VALUE"

fun currPos :: "joint \<Rightarrow> 'a::len machine \<Rightarrow> 'a word" where
  "currPos LeftHip s = currLeftHip s"
| "currPos LeftFoot s = currLeftFoot s"
| "currPos RightHip s = currRightHip s"
| "currPos RightFoot s = currRightFoot s"

fun startPos :: "joint \<Rightarrow> 'a::len machine \<Rightarrow> 'a word" where
  "startPos LeftHip s = startLeftHip s"
| "startPos LeftFoot s = startLeftFoot s"
| "startPos RightHip s = startRightHip s"
| "startPos RightFoot s = startRightFoot s"

text \<open>
  A servo position is a pulse width in microseconds. \<open>servo_range v\<close> says that \<open>v\<close> is not
  negative and at most \<open>2 ^ 24\<close>, so that a \<^verbatim>\<open>float\<close> holds it exactly; every non-negative
  16-bit \<^verbatim>\<open>int\<close> is in this range.
\<close>

definition servo_range :: "'a::len word \<Rightarrow> bool" where
  "servo_range v \<longleftrightarrow> 0 \<le> sint v \<and> sint v \<le> 16777216"

section \<open>The command grammar\<close>

definition is_upper :: "char \<Rightarrow> bool" where
  "is_upper c \<longleftrightarrow> code CHR ''A'' \<le> code c \<and> code c \<le> code CHR ''Z''"

definition is_digit :: "char \<Rightarrow> bool" where
  "is_digit c \<longleftrightarrow> code CHR ''0'' \<le> code c \<and> code c \<le> code CHR ''9''"

text \<open>\<open>comma_fields b\<close> splits the text \<open>b\<close> at its commas; there is always at least one field.\<close>

fun comma_fields :: "string \<Rightarrow> string list" where
  "comma_fields [] = [[]]"
| "comma_fields (c # cs) =
     (if c = CHR '','' then [] # comma_fields cs else (c # hd (comma_fields cs)) # tl (comma_fields cs))"

subsection \<open>The grammar in the words of the specification\<close>

text \<open>
  The specification gives the grammar \<open>"<" CODE ("," PARAM){0,5} ">"\<close>, where \<open>CODE\<close> is exactly
  two upper case letters and \<open>PARAM\<close> is an optional leading \<open>-\<close> followed by 1 to 6 digits.
  \<open>spec_command_body b\<close> says that \<open><b>\<close> is such a command. \<open>spec_strip_noise\<close> removes the
  noise from a byte sequence in the plain sense of the words: it keeps every well-formed
  command that occurs in the sequence and drops every other byte. (A command contains neither
  \<open><\<close> nor \<open>>\<close>, so a command can only start at the last \<open><\<close> before its \<open>>\<close>.)
\<close>

definition spec_param :: "string \<Rightarrow> bool" where
  "spec_param f \<longleftrightarrow>
     (let ds = (case f of [] \<Rightarrow> [] | c # r \<Rightarrow> if c = CHR ''-'' then r else f)
      in 1 \<le> length ds \<and> length ds \<le> 6 \<and> list_all is_digit ds)"

definition spec_command_body :: "string \<Rightarrow> bool" where
  "spec_command_body b \<longleftrightarrow>
     length (hd (comma_fields b)) = 2 \<and> list_all is_upper (hd (comma_fields b))
     \<and> length (tl (comma_fields b)) \<le> 5 \<and> list_all spec_param (tl (comma_fields b))"

fun spec_strip_noise :: "string \<Rightarrow> string"
  and spec_inside :: "string \<Rightarrow> string \<Rightarrow> string" where
  "spec_strip_noise [] = []"
| "spec_strip_noise (c # cs) =
     (if c = CHR ''<'' then spec_inside [] cs else spec_strip_noise cs)"
| "spec_inside b [] = []"
| "spec_inside b (c # cs) =
     (if c = CHR ''>'' then
        (if spec_command_body b then CHR ''<'' # b @ CHR ''>'' # spec_strip_noise cs
         else spec_strip_noise cs)
      else if c = CHR ''<'' then spec_inside [] cs
      else spec_inside (b @ [c]) cs)"

subsection \<open>The commands the parser accepts\<close>

text \<open>
  The grammar that the state machine implements differs from the one above in the
  parameters: a parameter is at most six characters long, the sign included, and it may have
  no digit at all (an empty parameter, or a lone \<open>-\<close>, stands for 0). \<open>command_body b\<close> says
  that \<open><b>\<close> is a command of this grammar, and \<open>body_prefix b\<close> that \<open>b\<close> can still be the
  beginning of the body of one.

  \<open>strip_noise\<close> removes the noise the way the state machine sees it: bytes outside a command
  are dropped; inside a command, the first byte that cannot continue it ends the attempt and
  is dropped together with everything read since the \<open><\<close>, and so is a command that is not
  complete at its \<open>>\<close>.
\<close>

definition param_ok :: "string \<Rightarrow> bool" where
  "param_ok f \<longleftrightarrow>
     length f \<le> 6
     \<and> (case f of [] \<Rightarrow> True | c # r \<Rightarrow> (c = CHR ''-'' \<or> is_digit c) \<and> list_all is_digit r)"

definition command_body :: "string \<Rightarrow> bool" where
  "command_body b \<longleftrightarrow>
     length (hd (comma_fields b)) = 2 \<and> list_all is_upper (hd (comma_fields b))
     \<and> length (tl (comma_fields b)) \<le> 5 \<and> list_all param_ok (tl (comma_fields b))"

definition body_prefix :: "string \<Rightarrow> bool" where
  "body_prefix b \<longleftrightarrow> command_body b \<or> (length b < 2 \<and> list_all is_upper b)"

fun strip_noise :: "string \<Rightarrow> string"
  and scan_command :: "string \<Rightarrow> string \<Rightarrow> string" where
  "strip_noise [] = []"
| "strip_noise (c # cs) =
     (if c = CHR ''<'' then scan_command [] cs else strip_noise cs)"
| "scan_command b [] = []"
| "scan_command b (c # cs) =
     (if c = CHR ''>'' then
        (if command_body b then CHR ''<'' # b @ CHR ''>'' # strip_noise cs
         else strip_noise cs)
      else if body_prefix (b @ [c]) then scan_command (b @ [c]) cs
      else strip_noise cs)"

text \<open>A sequence of commands of the parser's grammar, with nothing in between.\<close>

definition commands_only :: "string \<Rightarrow> bool" where
  "commands_only cs \<longleftrightarrow>
     (\<exists>bs. list_all command_body bs \<and> cs = concat (map (\<lambda>b. CHR ''<'' # b @ ''>'') bs))"


section \<open>Basic facts\<close>

lemmas joint_defs =
  FRONT_JOINT_HIPS_def LEFT_HIP_CENTRE_def LEFT_FOOT_CENTRE_def RIGHT_HIP_CENTRE_def
  RIGHT_FOOT_CENTRE_def FOOT_DELTA_def HIP_DELTA_def LeftHipCentre_def LeftHipIn_def
  LeftHipOut_def RightHipCentre_def RightHipIn_def RightHipOut_def LeftFootFlat_def
  LeftFootUp_def LeftFootDown_def RightFootFlat_def RightFootUp_def RightFootDown_def

lemmas column_defs =
  TWEEN_TIME_VALUE_def LEFT_HIP_VALUE_def LEFT_FOOT_VALUE_def RIGHT_HIP_VALUE_def
  RIGHT_FOOT_VALUE_def

subsection \<open>Machine integers\<close>

lemma sint_of_int_range:
  "- (2 ^ (LENGTH('a::len) - 1)) \<le> k \<Longrightarrow> k < 2 ^ (LENGTH('a) - 1)
     \<Longrightarrow> sint (word_of_int k :: 'a word) = k"
  by (simp add: sint_sbintrunc' signed_take_bit_int_eq_self)

lemma int_width: "16 \<le> LENGTH('a::len) \<Longrightarrow> (32768::int) \<le> 2 ^ (LENGTH('a) - 1)"
proof -
  assume "16 \<le> LENGTH('a)"
  then have "(2::int) ^ 15 \<le> 2 ^ (LENGTH('a) - 1)"
    by (intro power_increasing) auto
  then show ?thesis by simp
qed

lemma sint_small:
  "16 \<le> LENGTH('a::len) \<Longrightarrow> - 32768 \<le> k \<Longrightarrow> k < 32768 \<Longrightarrow> sint (word_of_int k :: 'a word) = k"
  using int_width[where 'a='a] by (intro sint_of_int_range) auto

lemma sint_300: "16 \<le> LENGTH('a::len) \<Longrightarrow> sint (300 :: 'a word) = 300"
  using sint_small[of 300, where 'a='a] by simp

lemma sint_1: "16 \<le> LENGTH('a::len) \<Longrightarrow> sint (1 :: 'a word) = 1"
  using sint_small[of 1, where 'a='a] by simp

subsection \<open>Interpolation\<close>

lemma nz_300: "16 \<le> LENGTH('a::len) \<Longrightarrow> (300 :: 'a word) \<noteq> 0"
proof
  assume w: "16 \<le> LENGTH('a)" and z: "(300 :: 'a word) = 0"
  have "sint (300 :: 'a word) = 300" by (rule sint_300[OF w])
  moreover have "sint (300 :: 'a word) = sint (0 :: 'a word)" by (simp only: z)
  ultimately show False by simp
qed

lemma not_300_sless_0: "16 \<le> LENGTH('a::len) \<Longrightarrow> \<not> (300 :: 'a word) <s 0"
  by (simp only: word_sless_alt sint_300 sint_0)

subsection \<open>Joint positions across the steps of the animation update\<close>

lemma currPos_start_next_anim: "currPos j (start_next_anim t s) = currPos j s"
  by (cases j) (simp_all add: start_next_anim_def Let_def)

lemma currPos_end_of_anim: "currPos j (end_of_anim t s) = currPos j s"
  by (cases j)
     (simp_all add: end_of_anim_def Let_def LoopAnim_def PlayAnimNumTimes_def
        switch_to_finish_def notify_complete_def)

lemma startPos_end_of_anim: "startPos j (end_of_anim t s) = startPos j s"
  by (cases j)
     (simp_all add: end_of_anim_def Let_def LoopAnim_def PlayAnimNumTimes_def
        switch_to_finish_def notify_complete_def)

lemma time_end_of_anim:
  "timeAtStartOfFrame s = t \<Longrightarrow> timeAtStartOfFrame (end_of_anim t s) = t"
  by (simp add: end_of_anim_def Let_def LoopAnim_def PlayAnimNumTimes_def
        switch_to_finish_def notify_complete_def)

lemma currPos_tween:
  "currPos j (tween t kf s) =
     (if 0 \<le>s kf ! column j
      then lerp (startPos j s) (kf ! column j) (sint (t - timeAtStartOfFrame s))
             (sint (kf ! TWEEN_TIME_VALUE))
      else currPos j s)"
  by (cases j) (simp_all add: tween_def Let_def UpdateServos_def)

lemma snap_pos:
  "currPos j (snap_to_keyframe t kf s) =
     (if 0 \<le>s kf ! column j then kf ! column j else currPos j s)"
  "startPos j (snap_to_keyframe t kf s) = currPos j (snap_to_keyframe t kf s)"
  "timeAtStartOfFrame (snap_to_keyframe t kf s) = t"
  by (cases j; simp add: snap_to_keyframe_def Let_def UpdateServos_def)+

lemma advance_frame_due:
  assumes ok: "advance_frame t (s :: 'a::len machine) = Inr s'"
    and row: "frame_row s (currAnim s) (targetFrame s) = Inr kf"
    and due: "frame_due t kf s"
  shows "currPos j s' = (if 0 \<le>s kf ! column j then kf ! column j else currPos j s)
       \<and> startPos j s' = currPos j s' \<and> timeAtStartOfFrame s' = t"
proof -
  from ok have "s' = snap_to_keyframe t kf s \<or> s' = end_of_anim t (snap_to_keyframe t kf s)"
    by (auto simp add: advance_frame_def row due split: sum.splits if_splits)
  then show ?thesis
    by (auto simp add: snap_pos currPos_end_of_anim startPos_end_of_anim time_end_of_anim)
qed

lemma frame_row_mem: "mem s' = mem s \<Longrightarrow> frame_row s' p i = frame_row s p i"
  by (cases p) (simp_all add: frame_row_def)

lemma Inl_from_case:
  "(case x of Inl e \<Rightarrow> e = f | Inr s \<Rightarrow> False) \<Longrightarrow> x = Inl f"
  by (cases x) auto


section \<open>Single precision arithmetic\<close>

declare bit_length.simps [simp del]

lemma pow2_powi: "pow2 k = 2 powi k"
  by (simp add: pow2_def power_int_def inverse_eq_divide power_one_over)

lemma pow2_pos [simp]: "0 < pow2 k"
  by (simp add: pow2_powi zero_less_power_int)

lemma pow2_nonneg [simp]: "0 \<le> pow2 k"
  using pow2_pos[of k] by (rule less_imp_le)

lemma pow2_nonzero [simp]: "pow2 k \<noteq> 0"
  using pow2_pos[of k] by (rule less_imp_neq[symmetric])

lemma pow2_add: "pow2 (a + b) = pow2 a * pow2 b"
  by (simp add: pow2_powi power_int_add)

lemma pow2_mono: "a \<le> b \<Longrightarrow> pow2 a \<le> pow2 b"
  by (simp add: pow2_powi power_int_increasing)

lemma pow2_strict_mono: "a < b \<Longrightarrow> pow2 a < pow2 b"
  by (simp add: pow2_powi power_int_strict_increasing)

lemma pow2_nat: "pow2 (int n) = 2 ^ n"
  by (simp add: pow2_def)

lemma pow2_neg_nat: "pow2 (- int n) = 1 / 2 ^ n"
  by (simp add: pow2_powi power_int_minus inverse_eq_divide)

lemma bit_length_bounds:
  "0 < n \<Longrightarrow> 2 ^ (bit_length n - 1) \<le> n \<and> n < 2 ^ bit_length n"
proof (induction n rule: bit_length.induct)
  case (1 n)
  show ?case
  proof (cases "n div 2 \<le> 0")
    case True
    then have "n = 1" using 1(2) by presburger
    then show ?thesis by (simp add: bit_length.simps)
  next
    case False
    then have pos: "0 < n div 2" by simp
    have ih: "2 ^ (bit_length (n div 2) - 1) \<le> n div 2 \<and> n div 2 < 2 ^ bit_length (n div 2)"
      using 1(1) 1(2) pos by simp
    have bl: "bit_length n = Suc (bit_length (n div 2))"
      using 1(2) by (subst bit_length.simps) simp
    have blpos: "0 < bit_length (n div 2)"
      using pos by (subst bit_length.simps) simp
    then obtain k where k: "bit_length (n div 2) = Suc k" by (cases "bit_length (n div 2)") auto
    have "2 * 2 ^ k \<le> 2 * (n div 2)" using ih k by simp
    also have "\<dots> \<le> n" by presburger
    finally have lo: "2 ^ (bit_length n - 1) \<le> n" by (simp add: bl k)
    have "n div 2 + 1 \<le> 2 ^ bit_length (n div 2)" using ih by simp
    then have "2 * (n div 2) + 2 \<le> 2 * 2 ^ bit_length (n div 2)" by simp
    moreover have "n < 2 * (n div 2) + 2" by presburger
    ultimately have hi: "n < 2 ^ bit_length n" by (simp add: bl)
    show ?thesis using lo hi by simp
  qed
qed

lemma bit_length_pos: "0 < n \<Longrightarrow> 0 < bit_length n"
  by (subst bit_length.simps) simp

lemma binary_exponent_bounds:
  assumes "x \<noteq> 0"
  shows "pow2 (binary_exponent x) \<le> \<bar>x\<bar> \<and> \<bar>x\<bar> < pow2 (binary_exponent x + 1)"
proof (cases "1 \<le> \<bar>x\<bar>")
  case True
  define n where "n = \<lfloor>\<bar>x\<bar>\<rfloor>"
  have n1: "0 < n" using True by (simp add: n_def)
  have nx: "of_int n \<le> \<bar>x\<bar>" "\<bar>x\<bar> < of_int n + 1"
    unfolding n_def by linarith+
  note b = bit_length_bounds[OF n1]
  have e: "binary_exponent x = int (bit_length n - 1)"
    using True bit_length_pos[OF n1] by (simp add: binary_exponent_def n_def)
  have "pow2 (binary_exponent x) = of_int (2 ^ (bit_length n - 1))"
    by (simp add: e pow2_nat)
  also have "\<dots> \<le> of_int n" using b by (simp only: of_int_le_iff)
  finally have lo: "pow2 (binary_exponent x) \<le> \<bar>x\<bar>" using nx(1) by (rule order_trans)
  have e1: "binary_exponent x + 1 = int (bit_length n)"
    using e bit_length_pos[OF n1] by simp
  have "n + 1 \<le> 2 ^ bit_length n" using b by simp
  then have "(of_int (n + 1) :: rat) \<le> of_int (2 ^ bit_length n)" by (simp only: of_int_le_iff)
  then have "of_int n + 1 \<le> pow2 (binary_exponent x + 1)" by (simp add: e1 pow2_nat)
  then have hi: "\<bar>x\<bar> < pow2 (binary_exponent x + 1)" using nx(2) by (rule less_le_trans[rotated])
  show ?thesis using lo hi by simp
next
  case False
  define y where "y = 1 / \<bar>x\<bar>"
  have xp: "0 < \<bar>x\<bar>" using assms by simp
  have y1: "1 < y" using False xp by (simp add: y_def)
  define m where "m = \<lceil>y\<rceil> - 1"
  have c2: "2 \<le> \<lceil>y\<rceil>" using y1 by linarith
  have m1: "0 < m" using c2 by (simp add: m_def)
  have my: "of_int m < y" "y \<le> of_int m + 1"
    unfolding m_def by linarith+
  note b = bit_length_bounds[OF m1]
  have e: "binary_exponent x = - int (bit_length m)"
    using False by (simp add: binary_exponent_def m_def y_def)
  obtain k where k: "bit_length m = Suc k"
    using bit_length_pos[OF m1] by (cases "bit_length m") auto
  have "m + 1 \<le> 2 ^ bit_length m" using b by simp
  then have "(of_int (m + 1) :: rat) \<le> of_int (2 ^ bit_length m)" by (simp only: of_int_le_iff)
  then have "of_int m + 1 \<le> (2 :: rat) ^ bit_length m" by simp
  then have "y \<le> 2 ^ bit_length m" using my(2) by (rule order_trans[rotated])
  then have "1 \<le> \<bar>x\<bar> * 2 ^ bit_length m" using xp by (simp add: y_def field_simps)
  then have lo: "pow2 (binary_exponent x) \<le> \<bar>x\<bar>"
    by (simp add: e pow2_neg_nat field_simps)
  have "(of_int (2 ^ k) :: rat) \<le> of_int m" using b k by (simp only: of_int_le_iff) simp
  then have "(2 :: rat) ^ k \<le> of_int m" by simp
  then have "2 ^ k < y" using my(1) by (rule le_less_trans)
  then have "\<bar>x\<bar> * 2 ^ k < 1" using xp by (simp add: y_def field_simps)
  moreover have "binary_exponent x + 1 = - int k" using e k by simp
  ultimately have hi: "\<bar>x\<bar> < pow2 (binary_exponent x + 1)"
    by (simp add: pow2_neg_nat field_simps)
  show ?thesis using lo hi by simp
qed

lemma binary_exponent_unique:
  assumes "pow2 e \<le> \<bar>x\<bar>" "\<bar>x\<bar> < pow2 (e + 1)"
  shows "binary_exponent x = e"
proof -
  have "0 < \<bar>x\<bar>" using assms(1) pow2_pos[of e] by (rule less_le_trans[rotated])
  then have "x \<noteq> 0" by simp
  note b = binary_exponent_bounds[OF this]
  have "\<not> binary_exponent x < e"
  proof
    assume "binary_exponent x < e"
    then have "pow2 (binary_exponent x + 1) \<le> pow2 e" by (intro pow2_mono) simp
    then show False using b assms by simp
  qed
  moreover have "\<not> e < binary_exponent x"
  proof
    assume "e < binary_exponent x"
    then have "pow2 (e + 1) \<le> pow2 (binary_exponent x)" by (intro pow2_mono) simp
    then show False using b assms by simp
  qed
  ultimately show ?thesis by simp
qed


lemma round_half_even_int [simp]: "round_half_even (of_int n) = n"
  by (simp add: round_half_even_def)

lemma round_half_even_0 [simp]: "round_half_even 0 = 0"
  using round_half_even_int[of 0] by simp

lemma round_half_even_numeral [simp]: "round_half_even (numeral n) = numeral n"
  using round_half_even_int[of "numeral n"] by simp

lemma round_half_even_floor: "\<lfloor>r\<rfloor> \<le> round_half_even r \<and> round_half_even r \<le> \<lfloor>r\<rfloor> + 1"
  by (simp add: round_half_even_def)

lemma round_half_even_mono:
  assumes "r \<le> s"
  shows "round_half_even r \<le> round_half_even s"
proof (cases "\<lfloor>r\<rfloor> = \<lfloor>s\<rfloor>")
  case True
  have "r - of_int \<lfloor>r\<rfloor> \<le> s - of_int \<lfloor>s\<rfloor>" using assms True by simp
  then show ?thesis using True by (auto simp add: round_half_even_def)
next
  case False
  have "\<lfloor>r\<rfloor> \<le> \<lfloor>s\<rfloor>" using assms by (rule floor_mono)
  then have "\<lfloor>r\<rfloor> + 1 \<le> \<lfloor>s\<rfloor>" using False by simp
  then show ?thesis
    using round_half_even_floor[of r] round_half_even_floor[of s] by linarith
qed

lemma round_half_even_minus: "round_half_even (- r) = - round_half_even r"
proof (cases "r = of_int \<lfloor>r\<rfloor>")
  case True
  then obtain n where "r = of_int n" ..
  then have "round_half_even (- r) = round_half_even (of_int (- n))" by simp
  also have "\<dots> = - n" by (rule round_half_even_int)
  finally show ?thesis using \<open>r = of_int n\<close> by simp
next
  case False
  then have lt: "of_int \<lfloor>r\<rfloor> < r" using of_int_floor_le[of r] by linarith
  have "r < of_int \<lfloor>r\<rfloor> + 1" by linarith
  then have fl: "\<lfloor>- r\<rfloor> = - \<lfloor>r\<rfloor> - 1" using lt by (intro floor_unique) simp_all
  have par: "even (- \<lfloor>r\<rfloor> - 1) \<longleftrightarrow> \<not> even \<lfloor>r\<rfloor>" by simp
  show ?thesis
    unfolding round_half_even_def fl par
    by (auto simp add: algebra_simps)
qed

lemma float_round_0 [simp]: "float_round 0 = 0"
  by (simp add: float_round_def)

lemma float_round_eval:
  assumes "pow2 e \<le> \<bar>x\<bar>" "\<bar>x\<bar> < pow2 (e + 1)"
  shows "float_round x =
     of_int (round_half_even (x / pow2 (max e (- 126) - 23))) * pow2 (max e (- 126) - 23)"
proof -
  have "0 < \<bar>x\<bar>" using assms(1) pow2_pos[of e] by (rule less_le_trans[rotated])
  then have "x \<noteq> 0" by simp
  then show ?thesis
    by (simp add: float_round_def binary_exponent_unique[OF assms])
qed

lemma float_round_minus: "float_round (- x) = - float_round x"
proof (cases "x = 0")
  case True
  then show ?thesis by simp
next
  case False
  have e: "binary_exponent (- x) = binary_exponent x" by (simp add: binary_exponent_def)
  have "float_round (- x) =
      of_int (round_half_even (- (x / pow2 (max (binary_exponent x) (- 126) - 23))))
        * pow2 (max (binary_exponent x) (- 126) - 23)"
    using False by (simp add: float_round_def e)
  then show ?thesis using False by (simp add: round_half_even_minus float_round_def)
qed

lemma float_round_nonneg: "0 \<le> x \<Longrightarrow> 0 \<le> float_round x"
proof -
  assume x: "0 \<le> x"
  have "0 \<le> round_half_even (x / pow2 k)" for k
  proof -
    have "0 \<le> x / pow2 k" using x by (intro divide_nonneg_pos) simp_all
    then have "round_half_even (of_int 0) \<le> round_half_even (x / pow2 k)"
      by (intro round_half_even_mono) simp
    then show ?thesis by simp
  qed
  then show ?thesis by (simp add: float_round_def)
qed

lemma pow2_24: "pow2 24 = 16777216" by (simp add: pow2_def)
lemma pow2_23: "pow2 23 = 8388608" by (simp add: pow2_def)

lemma pow2_diff: "pow2 (a - b) = pow2 a / pow2 b"
  by (simp add: pow2_powi power_int_diff)

lemma float_round_mono_pos:
  assumes x: "0 < x" and xy: "x \<le> y"
  shows "float_round x \<le> float_round y"
proof -
  define ex where "ex = binary_exponent x"
  define ey where "ey = binary_exponent y"
  define mx where "mx = max ex (- 126)"
  define my where "my = max ey (- 126)"
  have y: "0 < y" using x xy by simp
  have bx: "pow2 ex \<le> x" "x < pow2 (ex + 1)"
    using binary_exponent_bounds[of x] x by (simp_all add: ex_def)
  have by': "pow2 ey \<le> y" "y < pow2 (ey + 1)"
    using binary_exponent_bounds[of y] y by (simp_all add: ey_def)
  have fx: "float_round x = of_int (round_half_even (x / pow2 (mx - 23))) * pow2 (mx - 23)"
    using x by (simp add: float_round_def ex_def mx_def)
  have fy: "float_round y = of_int (round_half_even (y / pow2 (my - 23))) * pow2 (my - 23)"
    using y by (simp add: float_round_def ey_def my_def)
  have "pow2 ex < pow2 (ey + 1)" using bx(1) xy by'(2) by simp
  then have "ex < ey + 1"
    using pow2_mono[of "ey + 1" ex] by (cases "ex < ey + 1") auto
  then have mxy: "mx \<le> my" by (simp add: mx_def my_def)
  show ?thesis
  proof (cases "mx = my")
    case True
    have "x / pow2 (my - 23) \<le> y / pow2 (my - 23)"
      using xy by (simp add: divide_right_mono)
    then have "round_half_even (x / pow2 (my - 23)) \<le> round_half_even (y / pow2 (my - 23))"
      by (rule round_half_even_mono)
    then show ?thesis by (simp add: fx fy True)
  next
    case False
    then have lt: "mx < my" using mxy by simp
    then have mey: "my = ey" unfolding mx_def my_def by linarith
    have "x \<le> pow2 (mx + 1)"
      using bx(2) pow2_mono[of "ex + 1" "mx + 1"] by (simp add: mx_def)
    then have "x / pow2 (mx - 23) \<le> pow2 (mx + 1) / pow2 (mx - 23)"
      by (simp add: divide_right_mono)
    also have "pow2 (mx + 1) / pow2 (mx - 23) = pow2 24"
      using pow2_diff[of "mx + 1" "mx - 23"] by simp
    finally have "round_half_even (x / pow2 (mx - 23)) \<le> round_half_even (of_int 16777216)"
      by (intro round_half_even_mono) (simp add: pow2_24)
    then have "round_half_even (x / pow2 (mx - 23)) \<le> 16777216" by simp
    then have "(of_int (round_half_even (x / pow2 (mx - 23))) :: rat) \<le> of_int 16777216"
      by (simp only: of_int_le_iff)
    then have "float_round x \<le> pow2 24 * pow2 (mx - 23)"
      by (simp add: fx pow2_24)
    also have "\<dots> = pow2 (mx + 1)"
    proof -
      have h: "mx + 1 = 24 + (mx - 23)" by simp
      show ?thesis unfolding h by (rule pow2_add[symmetric])
    qed
    also have "\<dots> \<le> pow2 ey" using lt mey by (intro pow2_mono) simp
    finally have up: "float_round x \<le> pow2 ey" .
    have "pow2 ey / pow2 (ey - 23) \<le> y / pow2 (ey - 23)"
      using by'(1) by (simp add: divide_right_mono)
    moreover have "pow2 ey / pow2 (ey - 23) = pow2 23"
      using pow2_diff[of ey "ey - 23"] by simp
    ultimately have "round_half_even (of_int 8388608) \<le> round_half_even (y / pow2 (ey - 23))"
      by (intro round_half_even_mono) (simp add: pow2_23)
    then have "8388608 \<le> round_half_even (y / pow2 (ey - 23))" by simp
    then have "(of_int 8388608 :: rat) \<le> of_int (round_half_even (y / pow2 (ey - 23)))"
      by (simp only: of_int_le_iff)
    then have "pow2 23 * pow2 (ey - 23) \<le> float_round y"
      by (simp add: fy mey pow2_23)
    moreover have "pow2 23 * pow2 (ey - 23) = pow2 ey"
    proof -
      have h: "pow2 ey = pow2 (23 + (ey - 23))" by simp
      show ?thesis unfolding h by (rule pow2_add[symmetric])
    qed
    ultimately show ?thesis using up by simp
  qed
qed

lemma float_round_mono:
  assumes "x \<le> y"
  shows "float_round x \<le> float_round y"
proof -
  consider "0 < x" | "x \<le> 0" "0 \<le> y" | "y < 0" by linarith
  then show ?thesis
  proof cases
    case 1
    then show ?thesis using assms by (rule float_round_mono_pos)
  next
    case 2
    have "0 \<le> float_round (- x)" using 2(1) by (intro float_round_nonneg) simp
    then have "float_round x \<le> 0" by (simp add: float_round_minus)
    then show ?thesis using float_round_nonneg[OF 2(2)] by simp
  next
    case 3
    have "float_round (- y) \<le> float_round (- x)"
      using 3 assms by (intro float_round_mono_pos) simp_all
    then show ?thesis by (simp add: float_round_minus)
  qed
qed


lemma float_round_int:
  assumes "\<bar>n\<bar> \<le> 16777216"
  shows "float_round (of_int n) = of_int n"
proof (cases "n = 0")
  case True
  then show ?thesis by simp
next
  case False
  define x :: rat where "x = of_int n"
  define e where "e = binary_exponent x"
  have x0: "x \<noteq> 0" using False by (simp add: x_def)
  have ax: "\<bar>x\<bar> = of_int \<bar>n\<bar>" by (simp add: x_def)
  have "1 \<le> \<bar>n\<bar>" using False by simp
  then have lo1: "1 \<le> \<bar>x\<bar>" unfolding ax by (simp only: of_int_1_le_iff)
  have hi1: "\<bar>x\<bar> \<le> pow2 24" using assms unfolding ax pow2_24 by (simp only: of_int_le_numeral_iff)
  have b: "pow2 e \<le> \<bar>x\<bar>" "\<bar>x\<bar> < pow2 (e + 1)"
    using binary_exponent_bounds[OF x0] by (simp_all add: e_def)
  have "pow2 e < pow2 25" using b(1) hi1 pow2_strict_mono[of 24 25] by simp
  then have e24: "e \<le> 24" using pow2_mono[of 25 e] by (cases "e \<le> 24") auto
  have "pow2 0 < pow2 (e + 1)" using lo1 b(2) by (simp add: pow2_def)
  then have e0: "0 \<le> e" using pow2_mono[of "e + 1" 0] by (cases "0 \<le> e") auto
  have fr: "float_round x = of_int (round_half_even (x / pow2 (e - 23))) * pow2 (e - 23)"
    using x0 e0 by (simp add: float_round_def e_def[symmetric])
  show ?thesis
  proof (cases "e \<le> 23")
    case True
    define k where "k = nat (23 - e)"
    have p: "pow2 (e - 23) = 1 / 2 ^ k"
      using True pow2_neg_nat[of k] by (simp add: k_def)
    have "x / pow2 (e - 23) = of_int (n * 2 ^ k)" by (simp add: p x_def)
    then have "round_half_even (x / pow2 (e - 23)) = n * 2 ^ k"
      by (simp only: round_half_even_int)
    then show ?thesis using fr by (simp add: p x_def)
  next
    case False
    then have e: "e = 24" using e24 by simp
    have "\<bar>x\<bar> = pow2 24" using b(1) hi1 e by simp
    then have "x = 16777216 \<or> x = - 16777216" by (simp add: pow2_24 abs_if split: if_splits)
    then show ?thesis
      using fr unfolding e x_def[symmetric] by (auto simp add: pow2_def round_half_even_minus[of 8388608, simplified])
  qed
qed

lemma float_round_1 [simp]: "float_round 1 = 1"
  using float_round_int[of 1] by simp

lemma trunc_int [simp]: "trunc (of_int n) = n"
  by (simp add: trunc_def)

lemma trunc_between:
  assumes "of_int a \<le> x" "x \<le> of_int b"
  shows "a \<le> trunc x \<and> trunc x \<le> b"
proof -
  have "a \<le> \<lfloor>x\<rfloor>" using assms(1) by (simp add: le_floor_iff)
  moreover have "\<lceil>x\<rceil> \<le> b" using assms(2) by (simp add: ceiling_le_iff)
  moreover have "\<lfloor>x\<rfloor> \<le> \<lceil>x\<rceil>" by (rule floor_le_ceiling)
  ultimately show ?thesis unfolding trunc_def by (cases "0 \<le> x") (simp_all, linarith+)
qed

lemma frameTimeFraction_0 [simp]: "frameTimeFraction 0 T = 0"
  by (simp add: frameTimeFraction_def)

lemma frameTimeFraction_range:
  assumes "0 \<le> e" "e \<le> T" "0 < T"
  shows "0 \<le> frameTimeFraction e T \<and> frameTimeFraction e T \<le> 1"
proof -
  have fe: "0 \<le> float_round (of_int e)" using assms(1) by (intro float_round_nonneg) simp
  have "float_round (of_int 1) \<le> float_round (of_int T)"
    using assms(3) by (intro float_round_mono) simp
  then have fT: "0 < float_round (of_int T)" by simp
  have le: "float_round (of_int e) \<le> float_round (of_int T)"
    using assms(2) by (intro float_round_mono) simp
  have q0: "0 \<le> float_round (of_int e) / float_round (of_int T)" using fe fT by simp
  have q1: "float_round (of_int e) / float_round (of_int T) \<le> 1" using le fT by simp
  have "float_round (float_round (of_int e) / float_round (of_int T)) \<le> float_round 1"
    using q1 by (rule float_round_mono)
  then show ?thesis using float_round_nonneg[OF q0] by (simp add: frameTimeFraction_def)
qed


lemma lerp_zero:
  assumes "\<bar>sint start\<bar> \<le> 16777216"
  shows "lerp start target 0 T = start"
proof -
  have "lerp start target 0 T = word_of_int (trunc (of_int (sint start)))"
    unfolding lerp_def frameTimeFraction_0
    by (simp only: mult_zero_right float_round_0 add_0_right float_round_int[OF assms])
  then show ?thesis by (simp only: trunc_int) simp
qed

lemma lerp_code [code]:
  "lerp start target elapsed tweenTime =
     (if elapsed = 0 \<and> \<bar>sint start\<bar> \<le> 16777216 then start
      else word_of_int (trunc (float_round
       (float_round (of_int (sint start))
        + float_round (float_round (of_int (sint (target - start)))
                       * frameTimeFraction elapsed tweenTime)))))"
  using lerp_zero[of start target tweenTime] unfolding lerp_def[symmetric] by simp

lemma sint_diff_small:
  fixes a b :: "'a::len word"
  assumes "0 \<le> sint a" "0 \<le> sint b"
  shows "sint (b - a) = sint b - sint a"
proof -
  have ra: "sint a < 2 ^ (LENGTH('a) - 1)" by (rule sint_lt)
  have rb: "sint b < 2 ^ (LENGTH('a) - 1)" by (rule sint_lt)
  have "b - a = word_of_int (sint b - sint a)" by simp
  moreover have "sint (word_of_int (sint b - sint a) :: 'a word) = sint b - sint a"
    using assms ra rb by (intro sint_of_int_range) simp_all
  ultimately show ?thesis by simp
qed

lemma lerp_between:
  fixes start target :: "'a::len word"
  assumes a0: "0 \<le> sint start" and a1: "sint start \<le> 16777216"
    and b0: "0 \<le> sint target" and b1: "sint target \<le> 16777216"
    and e0: "0 \<le> e" and eT: "e \<le> T" and T0: "0 < T"
  shows "min (sint start) (sint target) \<le> sint (lerp start target e T)
       \<and> sint (lerp start target e T) \<le> max (sint start) (sint target)"
proof -
  define a where "a = sint start"
  define b where "b = sint target"
  define f where "f = frameTimeFraction e T"
  define p where "p = float_round (of_int (b - a) * f)"
  define r where "r = float_round (of_int a + p)"
  have f01: "0 \<le> f" "f \<le> 1" using frameTimeFraction_range[OF e0 eT T0] by (simp_all add: f_def)
  have d: "sint (target - start) = b - a"
    using sint_diff_small[OF a0 b0] by (simp add: a_def b_def)
  have fa: "float_round (of_int a) = of_int a" using a0 a1 by (intro float_round_int) (simp add: a_def)
  have fb: "float_round (of_int b) = of_int b" using b0 b1 by (intro float_round_int) (simp add: b_def)
  have fd: "float_round (of_int (b - a)) = of_int (b - a)"
    using a0 a1 b0 b1 by (intro float_round_int) (simp add: a_def b_def)
  have L: "lerp start target e T = word_of_int (trunc r)"
    unfolding lerp_def r_def p_def f_def by (simp only: d a_def[symmetric] fa fd)
  have rng: "of_int (min a b) \<le> r \<and> r \<le> of_int (max a b)"
  proof (cases "a \<le> b")
    case True
    then have dd: "(0::rat) \<le> of_int (b - a)" by simp
    have "0 \<le> of_int (b - a) * f" using dd f01 by simp
    then have p0: "0 \<le> p" unfolding p_def by (rule float_round_nonneg)
    have "of_int (b - a) * f \<le> of_int (b - a) * 1" using dd f01 by (intro mult_left_mono) simp_all
    then have "p \<le> float_round (of_int (b - a))" unfolding p_def by (intro float_round_mono) simp
    then have p1: "p \<le> of_int (b - a)" by (simp only: fd)
    have "float_round (of_int a) \<le> r" unfolding r_def using p0 by (intro float_round_mono) simp
    moreover have "r \<le> float_round (of_int b)" unfolding r_def using p1 by (intro float_round_mono) simp
    ultimately show ?thesis using True by (simp add: fa fb)
  next
    case False
    then have dd: "of_int (b - a) \<le> (0::rat)" by simp
    have "of_int (b - a) * f \<le> 0" using dd f01 by (simp add: mult_nonpos_nonneg)
    then have "float_round (of_int (b - a) * f) \<le> float_round 0" by (rule float_round_mono)
    then have p0: "p \<le> 0" by (simp add: p_def)
    have "of_int (b - a) * 1 \<le> of_int (b - a) * f" using dd f01 by (intro mult_left_mono_neg) simp_all
    then have "float_round (of_int (b - a)) \<le> p" unfolding p_def by (intro float_round_mono) simp
    then have p1: "of_int (b - a) \<le> p" by (simp only: fd)
    have "r \<le> float_round (of_int a)" unfolding r_def using p0 by (intro float_round_mono) simp
    moreover have "float_round (of_int b) \<le> r" unfolding r_def using p1 by (intro float_round_mono) simp
    ultimately show ?thesis using False by (simp add: fa fb)
  qed
  then have t: "min a b \<le> trunc r \<and> trunc r \<le> max a b" by (intro trunc_between) simp_all
  have "0 \<le> trunc r" using t a0 b0 unfolding a_def b_def by linarith
  moreover have "- (2 ^ (LENGTH('a) - 1)) \<le> (0::int)" by simp
  ultimately have "- (2 ^ (LENGTH('a) - 1)) \<le> trunc r" by (rule order_trans[rotated])
  moreover have "trunc r < 2 ^ (LENGTH('a) - 1)"
    using t sint_lt[of start] sint_lt[of target] unfolding a_def b_def by linarith
  ultimately have "sint (word_of_int (trunc r) :: 'a word) = trunc r" by (rule sint_of_int_range)
  then show ?thesis using t by (simp add: L a_def b_def)
qed

section \<open>Facts about the parser\<close>

declare decimal.simps [simp del]

lemma dispatches_append:
  "dispatches (xs @ ys) p = dispatches xs p @ dispatches ys (parser_after xs p)"
  by (induction xs arbitrary: p) (simp_all add: Let_def)

lemma parser_after_append:
  "parser_after (xs @ ys) p = parser_after ys (parser_after xs p)"
  by (induction xs arbitrary: p) (simp_all add: Let_def)

lemma getParam_setParam [simp]: "getParam k (setParam k v p) = v"
  by simp
lemma setParam_setParam [simp]: "setParam k v (setParam k v' p) = setParam k v p"
  by simp
lemma setParam_fields [simp]:
  "currParserState (setParam k v p) = currParserState p"
  "currParamIndex (setParam k v p) = currParamIndex p"
  "currParamNegative (setParam k v p) = currParamNegative p"
  "currCmd (setParam k v p) = currCmd p"
  by simp_all
lemma setParam_idx [simp]:
  "setParam k v (p\<lparr>currParamIndex := i\<rparr>) = (setParam k v p)\<lparr>currParamIndex := i\<rparr>"
  "getParam k (p\<lparr>currParamIndex := i\<rparr>) = getParam k p"
  by simp_all
declare getParam.simps [simp del] setParam.simps [simp del]

lemma code_digit_char: "d < 10 \<Longrightarrow> code (digit_char d) = 48 + d"
proof -
  assume "d < 10"
  then have "d = 0 \<or> d = 1 \<or> d = 2 \<or> d = 3 \<or> d = 4 \<or> d = 5 \<or> d = 6 \<or> d = 7 \<or> d = 8 \<or> d = 9"
    by arith
  then show ?thesis
    by (elim disjE) (simp_all add: code_def digit_char_def)
qed

lemma decimal_small: "n < 10 \<Longrightarrow> decimal n = [digit_char n]"
  by (simp add: decimal.simps)

lemma decimal_large: "\<not> n < 10 \<Longrightarrow> decimal n = decimal (n div 10) @ [digit_char (n mod 10)]"
  by (subst decimal.simps) simp

lemmas show_int_simps = sv_command_def show_int_def decimal_small decimal_large digit_char_def

lemma digit_char_neq: "d < 10 \<Longrightarrow> digit_char d \<noteq> CHR '','' \<and> digit_char d \<noteq> CHR ''>'' \<and> digit_char d \<noteq> CHR ''-''"
  using code_digit_char[of d] by (auto simp add: code_def)

lemma parse_digit:
  assumes "currParserState p = PARSER_PARAM k" "1 \<le> k" "k \<le> 5" "d < 10" "currParamIndex p < 6"
  shows "parse_char (digit_char d) p =
     (setParam k (getParam k p * 10 + of_nat d) p)\<lparr>currParamIndex := currParamIndex p + 1\<rparr>"
  using assms digit_char_neq[of d]
  by (simp add: parse_char_def param_char_def SEP_CHAR_def END_CHAR_def MAX_PARAM_LENGTH_def code_digit_char)
     (simp add: code_def)


lemma length_decimal: "n < 10 ^ k \<Longrightarrow> 1 \<le> k \<Longrightarrow> length (decimal n) \<le> k"
proof (induction n arbitrary: k rule: decimal.induct)
  case (1 n)
  show ?case
  proof (cases "n < 10")
    case True
    then show ?thesis using "1.prems" by (simp add: decimal.simps)
  next
    case False
    then obtain k' where k: "k = Suc k'" "1 \<le> k'"
      using "1.prems" by (cases k; cases "k - 1") auto
    have "n div 10 < 10 ^ k'" using "1.prems" k by (simp add: less_mult_imp_div_less mult.commute)
    then have "length (decimal (n div 10)) \<le> k'" using "1.IH"[OF False _ k(2)] by simp
    then show ?thesis using False k by (simp add: decimal.simps[of n])
  qed
qed

lemma parse_decimal:
  assumes "currParserState p = PARSER_PARAM k" "1 \<le> k" "k \<le> 5"
    and "currParamIndex p + length (decimal n) \<le> 6"
  shows "parser_after (decimal n) p =
           (setParam k (getParam k p * 10 ^ length (decimal n) + of_nat n) p)
             \<lparr>currParamIndex := currParamIndex p + length (decimal n)\<rparr>
         \<and> dispatches (decimal n) p = []"
  using assms
proof (induction n arbitrary: p rule: decimal.induct)
  case (1 n)
  show ?case
  proof (cases "n < 10")
    case True
    then have d: "decimal n = [digit_char n]" by (simp add: decimal.simps)
    have "currParamIndex p < 6" using "1.prems" d by simp
    then show ?thesis
      using "1.prems" True by (simp add: d parse_digit[where k=k] Let_def)
  next
    case False
    let ?xs = "decimal (n div 10)"
    have d: "decimal n = ?xs @ [digit_char (n mod 10)]" using False by (simp add: decimal.simps[of n])
    have len: "currParamIndex p + length ?xs \<le> 6" "currParamIndex p + length ?xs < 6"
      using "1.prems" d by simp_all
    note ih = "1.IH"[OF False "1.prems"(1,2,3) len(1)]
    let ?p1 = "parser_after ?xs p"
    have st: "currParserState ?p1 = PARSER_PARAM k" "currParamIndex ?p1 < 6"
      using ih "1.prems" len by simp_all
    have "(word_of_nat n :: 'a word) = word_of_nat (n div 10 * 10 + n mod 10)" by simp
    also have "\<dots> = word_of_nat (n div 10) * 10 + word_of_nat (n mod 10)"
      by (simp only: of_nat_add of_nat_mult of_nat_numeral)
    finally have m: "(word_of_nat n :: 'a word) = word_of_nat (n div 10) * 10 + word_of_nat (n mod 10)" .
    have v: "(getParam k p * 10 ^ length ?xs + word_of_nat (n div 10)) * 10 + word_of_nat (n mod 10)
           = getParam k p * 10 ^ length (decimal n) + (word_of_nat n :: 'a word)"
      by (simp add: d m algebra_simps)
    show ?thesis
      using st ih "1.prems"
      by (simp add: d dispatches_append parser_after_append parse_digit[where k=k] Let_def m
            algebra_simps)
  qed
qed


lemmas parser_defs =
  parse_char_def param_char_def applySign_def START_CHAR_def END_CHAR_def SEP_CHAR_def
  CMD_LENGTH_def MAX_PARAM_LENGTH_def code_def dispatched_def getParam.simps setParam.simps

lemma parser_after_Cons_go:
  "currParserState (parse_char c p) \<noteq> PARSER_EXECUTE \<Longrightarrow>
     parser_after (c # cs) p = parser_after cs (parse_char c p)"
  by (simp add: Let_def)

lemma parser_after_Cons_exec:
  "currParserState (parse_char c p) = PARSER_EXECUTE \<Longrightarrow>
     parser_after (c # cs) p =
       parser_after cs ((parse_char c p)\<lparr>currParserState := PARSER_WAITING\<rparr>)"
  by (simp add: Let_def)

lemma dispatches_Cons_go:
  "currParserState (parse_char c p) \<noteq> PARSER_EXECUTE \<Longrightarrow>
     dispatches (c # cs) p = dispatches cs (parse_char c p)"
  by (simp add: Let_def)

lemma dispatches_Cons_exec:
  "currParserState (parse_char c p) = PARSER_EXECUTE \<Longrightarrow>
     dispatches (c # cs) p =
       dispatched (parse_char c p)
         # dispatches cs ((parse_char c p)\<lparr>currParserState := PARSER_WAITING\<rparr>)"
  by (simp add: Let_def)

lemmas run_simps =
  parser_after_Cons_go parser_after_Cons_exec dispatches_Cons_go dispatches_Cons_exec

lemma sv_prefix:
  assumes "currParserState p = PARSER_WAITING"
  shows "parser_after ''<SV,0,'' p =
           p\<lparr>currParserState := PARSER_PARAM 2, currCmd := ''SV'', currCmdIndex := 2,
             currParam1Val := 0, currParam2Val := 0, currParam3Val := 0, currParam4Val := 0,
             currParam5Val := 0, currParamIndex := 0, currParamNegative := False\<rparr>
         \<and> dispatches ''<SV,0,'' p = []"
  using assms
  by (simp add: parser_defs run_simps del: parser_after.simps(2) dispatches.simps(2))

lemma sv_suffix:
  assumes "currParserState p = PARSER_PARAM 2" "currCmd p = ''SV''"
    "currParam1Val p = 0" "currParam3Val p = 0" "currParam4Val p = 0" "currParam5Val p = 0"
  shows "dispatches '',0,0,0>'' p =
           [(''SV'', 0, (if currParamNegative p then - 1 * currParam2Val p else currParam2Val p),
             0, 0, 0)]"
  using assms
  by (simp add: parser_defs run_simps del: parser_after.simps(2) dispatches.simps(2))


section \<open>The one-slot queue\<close>


text \<open>
  Claim C9. \<^verbatim>\<open>SetServos\<close> selects its scratch table by comparing \<^verbatim>\<open>currAnim\<close> with the
  address of \<^verbatim>\<open>setServosAnim1\<close>. In every state the selected table is different from the
  animation that \<^verbatim>\<open>currAnim\<close> points to; the call changes the memory of the selected table
  only, so the table of the current animation is left as it was.
\<close>

theorem C9_scratch_buffer_not_current:
  "currAnim s \<noteq> Some (tweenServoData s)
   \<and> (\<forall>a. a \<noteq> tweenServoData s \<longrightarrow>
          mem (SetServos tweenTime leftHip leftFoot rightHip rightFoot completeStr s) a = mem s a)
   \<and> (\<forall>a. currAnim s = Some a \<longrightarrow>
          mem (SetServos tweenTime leftHip leftFoot rightHip rightFoot completeStr s) a = mem s a)
   \<and> nextAnim (SetServos tweenTime leftHip leftFoot rightHip rightFoot completeStr s)
       = Some (tweenServoData s)"
  by (auto simp add: SetServos_def tweenServoData_def PlayAnim_def PlayAnimNumTimes_def Let_def)

text \<open>
  Witness for C9: while \<^verbatim>\<open>setServosAnim1\<close> is the current animation, a \<^verbatim>\<open>SetServos\<close> call
  writes the second scratch table and leaves the first one untouched.
\<close>

theorem C9_witness:
  "tweenServoData ((initial_machine :: 16 machine)\<lparr>currAnim := Some P_setServosAnim1\<rparr>)
     = P_setServosAnim2
   \<and> mem (SetServos 100 10 20 30 40 (Some ''SV'')
            ((initial_machine :: 16 machine)\<lparr>currAnim := Some P_setServosAnim1\<rparr>))
        P_setServosAnim1 = setServosAnim1
   \<and> mem (SetServos 100 10 20 30 40 (Some ''SV'')
            ((initial_machine :: 16 machine)\<lparr>currAnim := Some P_setServosAnim1\<rparr>))
        P_setServosAnim2 = [[1, 0, 0, 0, 0], [100, 1590, 1390, 1470, 1505]]"
proof -
  let ?s = "(initial_machine :: 16 machine)\<lparr>currAnim := Some P_setServosAnim1\<rparr>"
  have sel: "tweenServoData ?s = P_setServosAnim2"
    by (simp add: tweenServoData_def)
  have cur: "currAnim ?s = Some P_setServosAnim1"
    by simp
  have kept: "mem (SetServos 100 10 20 30 40 (Some ''SV'') ?s) P_setServosAnim1
               = mem ?s P_setServosAnim1"
    using C9_scratch_buffer_not_current
            [of ?s 100 10 20 30 40 "Some ''SV''"] cur
    by blast
  have old: "mem ?s P_setServosAnim1 = setServosAnim1"
    by (simp add: initial_machine_def)
  have new: "mem (SetServos 100 10 20 30 40 (Some ''SV'') ?s) P_setServosAnim2
               = [[1, 0, 0, 0, 0], [100, 1590, 1390, 1470, 1505]]"
    by (simp add: SetServos_def tweenServoData_def PlayAnim_def PlayAnimNumTimes_def Let_def
          initial_machine_def setServosAnim2_def joint_defs)
  show ?thesis
    using sel kept old new by simp
qed

section \<open>Immediate stop\<close>

text \<open>
  Claim C10. \<^verbatim>\<open>StopAnimImmediate\<close> sets the interrupt flag whether or not an animation
  is playing. If it is called while no animation is in progress, the next animation update
  that is due starts the queued stand-straight animation and, because the flag is set, first
  prints the interrupted line \<open><TAG,-1>\<close>, where \<open>TAG\<close> is the content of
  \<^verbatim>\<open>animCompleteStr\<close>: the tag of the animation that was started last (\<open>--\<close> after start-up).
  That animation is not playing any more, so when it ended normally its \<open><TAG>\<close> line has
  already been printed.
\<close>

theorem C10_stop_immediate_while_idle:
  assumes w: "16 \<le> LENGTH('a::len)"
    and tbl: "mem s P_standStraightAnim = (standStraightAnim :: 'a anim)"
    and idle: "\<not> animInProgress s"
    and due: "\<not> t <s timeAtLastAnimUpdate s + millisBetweenAnimUpdate"
  shows "\<exists>s'. loop_Animation t (StopAnimImmediate tag s) = Inr s' \<and>
          serialOut s' = serialOut s @ [interrupted_line (animCompleteStr s)]"
proof -
  define s1 where
    "s1 = start_next_anim t ((StopAnimImmediate tag s)\<lparr>timeAtLastAnimUpdate := t\<rparr>)"
  have f: "animInProgress s1" "currAnim s1 = Some P_standStraightAnim" "targetFrame s1 = 1"
    "timeAtStartOfFrame s1 = t" "mem s1 = mem s"
    "serialOut s1 = serialOut s @ [interrupted_line (animCompleteStr s)]"
    by (simp_all add: s1_def start_next_anim_def StopAnimImmediate_def PlayAnimNumTimes_def
          interrupted_line_def)
  have row: "frame_row s1 (Some P_standStraightAnim) 1
      = Inr [300, LeftHipCentre, LeftFootFlat, RightHipCentre, RightFootFlat]"
    using w by (simp add: frame_row_def f tbl standStraightAnim_def)
  have adv: "advance_frame t s1 = Inr s1"
    by (simp add: advance_frame_def frame_due_def timeInCurrFrame_def row f column_defs
          not_300_sless_0[OF w])
  have "\<exists>s'. interpolate t s1 = Inr s' \<and> serialOut s' = serialOut s1"
    using nz_300[OF w]
    by (simp add: interpolate_def tween_def f row column_defs Let_def UpdateServos_def)
  then show ?thesis
    using due
    by (simp add: loop_Animation_def Let_def s1_def[symmetric] f adv)
       (simp add: StopAnimImmediate_def PlayAnimNumTimes_def)
qed

text \<open>
  Witness for C10: after start-up the command \<open><ST>\<close> is received, started at 20 ms and
  finished at 330 ms, which prints \<open><ST>\<close>. Nothing is playing when \<open><SI>\<close> arrives; the
  update at 400 ms then prints \<open><ST,-1>\<close> for the animation that had already reported its
  completion.
\<close>

theorem C10_witness:
  "\<exists>s :: 16 machine.
      run_ticks [20, 330] (snd (run_Parser ''<ST>'' (arduino_setup 0))) = Inr s
    \<and> \<not> animInProgress s
    \<and> serialOut s = [''<OK>'', ''<ST>'']
    \<and> (\<exists>s'. loop_Animation 400 (StopAnimImmediate (Some ''SI'') s) = Inr s'
           \<and> serialOut s' = [''<OK>'', ''<ST>'', ''<ST,-1>''])"
proof -
  have ev: "case run_ticks [20, 330] (snd (run_Parser ''<ST>'' (arduino_setup 0)) :: 16 machine) of
              Inl e \<Rightarrow> False
            | Inr s \<Rightarrow> mem s P_standStraightAnim = standStraightAnim \<and> \<not> animInProgress s
                \<and> \<not> 400 <s timeAtLastAnimUpdate s + millisBetweenAnimUpdate
                \<and> serialOut s = [''<OK>'', ''<ST>''] \<and> animCompleteStr s = ''ST''"
    by code_simp
  then obtain s :: "16 machine" where
    run: "run_ticks [20, 330] (snd (run_Parser ''<ST>'' (arduino_setup 0))) = Inr s"
    and tbl: "mem s P_standStraightAnim = standStraightAnim"
    and idle: "\<not> animInProgress s"
    and due: "\<not> 400 <s timeAtLastAnimUpdate s + millisBetweenAnimUpdate"
    and out: "serialOut s = [''<OK>'', ''<ST>'']" and tag: "animCompleteStr s = ''ST''"
    by (auto split: sum.splits)
  have "\<exists>s'. loop_Animation 400 (StopAnimImmediate (Some ''SI'') s) = Inr s' \<and>
          serialOut s' = serialOut s @ [interrupted_line (animCompleteStr s)]"
    by (rule C10_stop_immediate_while_idle[OF _ tbl idle due]) simp
  then show ?thesis
    using run idle out tag by (auto simp add: interrupted_line_def)
qed


section \<open>Keyframes\<close>

text \<open>
  Claim C6 (not confirmed: the sketch divides by zero). A keyframe with tween time 0 is not
  reached on the update that makes it the target: that update sets \<^verbatim>\<open>timeAtStartOfFrame\<close>
  to the current time, so the time in the frame is 0 and the test \<open>0 > 0\<close> of line 1564
  fails; the interpolation that follows divides the elapsed time by \<open>(float) 0\<close>. This is what
  happens to the documented command \<open><SV,0,...>\<close> ("time 0 will immediately jump to angles").
\<close>

lemma zero_tween_time_divides:
  assumes due: "\<not> t <s timeAtLastAnimUpdate s + millisBetweenAnimUpdate"
    and idle: "\<not> animInProgress s"
    and queued: "nextAnim s = Some a"
    and row: "frame_row s (Some a) 1 = Inr kf"
    and zero: "kf ! TWEEN_TIME_VALUE = 0"
  shows "loop_Animation t (s :: 'a::len machine) = Inl DivByZero"
proof -
  define s1 where "s1 = start_next_anim t (s\<lparr>timeAtLastAnimUpdate := t\<rparr>)"
  have f: "animInProgress s1" "currAnim s1 = Some a" "targetFrame s1 = 1"
    "timeAtStartOfFrame s1 = t"
    using idle queued by (simp_all add: s1_def start_next_anim_def Let_def)
  have m: "mem s1 = mem s"
    using idle queued by (simp add: s1_def start_next_anim_def Let_def)
  have row1: "frame_row s1 (Some a) 1 = Inr kf"
    using row by (simp only: frame_row_mem[OF m])
  have adv: "advance_frame t s1 = Inr s1"
    by (simp add: advance_frame_def f row1 frame_due_def timeInCurrFrame_def zero)
  have "interpolate t s1 = Inl DivByZero"
    by (simp add: interpolate_def f row1 zero)
  then show ?thesis
    using due by (simp add: loop_Animation_def Let_def s1_def[symmetric] f adv)
qed

theorem C6_zero_tween_time_divides_by_zero:
  "loop_Animation 20 (snd (run_Parser ''<SV,0,0,0,0,0>'' (arduino_setup 0)) :: 16 machine)
     = Inl DivByZero"
  by (rule Inl_from_case) code_simp


section \<open>Parameter parsing\<close>

text \<open>
  Claim C2, as stated, fails: the minus sign is counted by \<^verbatim>\<open>currParamIndex\<close> like a digit, so
  a negative parameter may have at most five digits. For \<open>n = -100000\<close> the sixth digit
  finds \<^verbatim>\<open>currParamIndex >= MAX_PARAM_LENGTH\<close>, the command is abandoned and nothing is
  dispatched. This does not depend on the width of \<^verbatim>\<open>int\<close>; it is shown here for 32 bits.
\<close>

theorem C2_counterexample:
  "dispatches (sv_command (- 100000)) (initial_parser :: 32 parser) = []"
proof -
  have str: "sv_command (- 100000) = ''<SV,0,-100000,0,0,0>''"
    by (simp add: show_int_simps)
  have "dispatches ''<SV,0,-100000,0,0,0>'' (initial_parser :: 32 parser) = []"
    by code_simp
  then show ?thesis
    by (simp only: str)
qed

text \<open>
  A second limit comes from the width of \<^verbatim>\<open>int\<close>: on a board with 16-bit \<^verbatim>\<open>int\<close> the
  accumulation \<^verbatim>\<open>value * 10 + digit\<close> overflows above 32767, and \<open>n = 40000\<close> comes out as
  -25536.
\<close>

lemma sv_40000_on_16_bits:
  "map (\<lambda>(cmd, p1, p2, p3, p4, p5). (cmd, sint p1, sint p2, sint p3, sint p4, sint p5))
     (dispatches (sv_command 40000) (initial_parser :: 16 parser))
   = [(''SV'', 0, - 25536, 0, 0, 0)]"
proof -
  have str: "sv_command 40000 = ''<SV,0,40000,0,0,0>''"
    by (simp add: show_int_simps)
  have "map (\<lambda>(cmd, p1, p2, p3, p4, p5). (cmd, sint p1, sint p2, sint p3, sint p4, sint p5))
          (dispatches ''<SV,0,40000,0,0,0>'' (initial_parser :: 16 parser))
        = [(''SV'', 0, - 25536, 0, 0, 0)]"
    by code_simp
  then show ?thesis
    by (simp only: str)
qed

text \<open>
  Claim C2, amended: for every integer \<open>n\<close> from -99999 to 999999 that the board's \<^verbatim>\<open>int\<close> can
  hold (\<open>-2^(w-1) < n < 2^(w-1)\<close> for an \<^verbatim>\<open>int\<close> of \<open>w\<close> bits), feeding the bytes of
  \<open><SV,0,n,0,0,0>\<close> to a parser that is waiting for a command dispatches exactly one command,
  an \<open>SV\<close> whose second parameter is \<open>n\<close>, sign included.
\<close>

theorem C2_param_round_trip:
  assumes wait: "currParserState (p :: 'a::len parser) = PARSER_WAITING"
    and lo: "- 99999 \<le> n" and hi: "n \<le> 999999"
    and rlo: "- (2 ^ (LENGTH('a) - 1)) < n" and rhi: "n < 2 ^ (LENGTH('a) - 1)"
  shows "\<exists>v. dispatches (sv_command n) p = [(''SV'', 0, v, 0, 0, 0)] \<and> sint v = n"
proof -
  define p2 where "p2 = parser_after ''<SV,0,'' p"
  have p2: "currParserState p2 = PARSER_PARAM 2" "currCmd p2 = ''SV''" "currParam1Val p2 = 0"
    "currParam2Val p2 = 0" "currParam3Val p2 = 0" "currParam4Val p2 = 0" "currParam5Val p2 = 0"
    "currParamIndex p2 = 0" "\<not> currParamNegative p2"
    and d2: "dispatches ''<SV,0,'' p = []"
    using sv_prefix[OF wait] by (simp_all add: p2_def)
  define p3 where "p3 = parser_after (show_int n) p2"
  have p3: "currParserState p3 = PARSER_PARAM 2 \<and> currCmd p3 = ''SV'' \<and> currParam1Val p3 = 0
    \<and> currParam3Val p3 = 0 \<and> currParam4Val p3 = 0 \<and> currParam5Val p3 = 0
    \<and> (if currParamNegative p3 then - 1 * currParam2Val p3 else currParam2Val p3) = word_of_int n
    \<and> dispatches (show_int n) p2 = []"
  proof (cases "n < 0")
    case False
    then have "nat n < 10 ^ 6" using hi by simp
    then have len: "length (decimal (nat n)) \<le> 6" by (rule length_decimal) simp
    have "word_of_nat (nat n) = (word_of_int n :: 'a word)" using False by simp
    then show ?thesis
      using parse_decimal[of p2 2 "nat n"] p2 len False
      by (simp add: p3_def show_int_def getParam.simps setParam.simps)
  next
    case True
    define q where "q = p2\<lparr>currParamNegative := True, currParamIndex := 1\<rparr>"
    have step: "parse_char CHR ''-'' p2 = q"
      using p2 by (simp add: q_def parser_defs)
    have "nat (- n) < 10 ^ 5" using lo True by simp
    then have len: "length (decimal (nat (- n))) \<le> 5" by (rule length_decimal) simp
    have "- 1 * word_of_nat (nat (- n)) = (word_of_int n :: 'a word)" using True by simp
    then show ?thesis
      using parse_decimal[of q 2 "nat (- n)"] p2 len True
      by (simp add: p3_def show_int_def step Let_def q_def getParam.simps setParam.simps)
  qed
  have split: "dispatches (sv_command n) p =
      dispatches ''<SV,0,'' p @ dispatches (show_int n) p2 @ dispatches '',0,0,0>'' p3"
    unfolding sv_command_def p2_def p3_def by (simp only: dispatches_append)
  have "dispatches '',0,0,0>'' p3 = [(''SV'', 0, word_of_int n, 0, 0, 0)]"
    using p3 sv_suffix[of p3] by simp
  then have "dispatches (sv_command n) p = [(''SV'', 0, word_of_int n, 0, 0, 0)]"
    using d2 p3 by (simp only: split append_Nil)
  moreover have "sint (word_of_int n :: 'a word) = n"
    using rlo rhi by (intro sint_of_int_range) auto
  ultimately show ?thesis by blast
qed

text \<open>
  Witness for C2: \<open>n = -12345\<close> with a 16-bit \<^verbatim>\<open>int\<close>, and \<open>n = 999999\<close> with a 32-bit one.
\<close>

theorem C2_witness:
  "(\<exists>v. dispatches (sv_command (- 12345)) (initial_parser :: 16 parser) = [(''SV'', 0, v, 0, 0, 0)]
        \<and> sint v = - 12345)
   \<and> (\<exists>v. dispatches (sv_command 999999) (initial_parser :: 32 parser) = [(''SV'', 0, v, 0, 0, 0)]
        \<and> sint v = 999999)"
proof
  show "\<exists>v. dispatches (sv_command (- 12345)) (initial_parser :: 16 parser)
              = [(''SV'', 0, v, 0, 0, 0)] \<and> sint v = - 12345"
    by (rule C2_param_round_trip) (simp_all add: initial_parser_def)
  show "\<exists>v. dispatches (sv_command 999999) (initial_parser :: 32 parser)
              = [(''SV'', 0, v, 0, 0, 0)] \<and> sint v = 999999"
    by (rule C2_param_round_trip) (simp_all add: initial_parser_def)
qed


end
